theory Spec2Isabelle
  imports Main "HOL-Library.Word" "HOL-Library.Signed_Division"
begin

section \<open>Byte strings and the helpers of Go's \<open>strings\<close> package\<close>

text \<open>
  A Go \<open>string\<close> is a sequence of bytes and \<open>len\<close> counts bytes; it is modelled as
  \<^typ>\<open>string\<close>. The functions of package \<open>strings\<close> that \<open>smtp.go\<close> calls
  are written out below. Those that work on bytes (\<open>HasPrefix\<close>, \<open>Contains\<close>,
  \<open>Index\<close>, \<open>TrimRight\<close> with an ASCII cutset, ...) are functions of the bytes.
  \<open>TrimSpace\<close>, \<open>Fields\<close>, \<open>ToUpper\<close> and \<open>ToLower\<close> work on the runes that
  the string holds in UTF-8, as the Go functions do: they are written over
  \<open>DecodeRune\<close>, \<open>DecodeLastRune\<close> and \<open>EncodeRune\<close>, the functions of package
  \<open>unicode/utf8\<close>, and take the fast path of the Go code on ASCII bytes.
\<close>

definition CR :: char where
  "CR = CHR 0x0D"

definition LF :: char where
  "LF = CHR 0x0A"

definition CRLF :: string where
  "CRLF = [CR, LF]"

definition HasPrefix :: "string \<Rightarrow> string \<Rightarrow> bool" where
  "HasPrefix s p = (take (length p) s = p)"

definition HasSuffix :: "string \<Rightarrow> string \<Rightarrow> bool" where
  "HasSuffix s p = (length p \<le> length s \<and> drop (length s - length p) s = p)"

fun Contains :: "string \<Rightarrow> string \<Rightarrow> bool" where
  "Contains [] sub = (sub = [])"
| "Contains (c # cs) sub = (HasPrefix (c # cs) sub \<or> Contains cs sub)"

definition upper_char :: "char \<Rightarrow> char" where
  "upper_char c =
     (case map_of (zip ''abcdefghijklmnopqrstuvwxyz'' ''ABCDEFGHIJKLMNOPQRSTUVWXYZ'') c of
        Some u \<Rightarrow> u
      | None \<Rightarrow> c)"

definition lower_char :: "char \<Rightarrow> char" where
  "lower_char c =
     (case map_of (zip ''ABCDEFGHIJKLMNOPQRSTUVWXYZ'' ''abcdefghijklmnopqrstuvwxyz'') c of
        Some l \<Rightarrow> l
      | None \<Rightarrow> c)"

text \<open>The ASCII white space of \<open>strings.asciiSpace\<close>, and the bytes below \<open>utf8.RuneSelf\<close>.\<close>

definition is_space :: "char \<Rightarrow> bool" where
  "is_space c = (c \<in> set [CHR 0x09, CHR 0x0A, CHR 0x0B, CHR 0x0C, CHR 0x0D, CHR 0x20])"

definition is_ascii :: "char \<Rightarrow> bool" where
  "is_ascii c = (of_char c < (128::nat))"

subsection \<open>Runes in UTF-8\<close>

text \<open>
  A rune is its code point, an integer (Go's \<open>rune\<close> is \<open>int32\<close>).
  \<open>DecodeRune s\<close> is
  \<open>utf8.DecodeRuneInString\<close>: the first rune of \<open>s\<close> and its width in bytes, or
  \<open>(RuneError, 1)\<close> where the bytes are no valid encoding (a stray continuation
  byte, a lead byte \<open>C0\<close>, \<open>C1\<close> or above \<open>F4\<close>, a second byte outside the range
  that the lead byte accepts, a sequence cut short). A loop \<open>for _, r := range s\<close>
  decodes the same way.
\<close>

definition RuneError :: int where
  "RuneError = 0xFFFD"

definition DecodeRune :: "string \<Rightarrow> int \<times> nat" where
  "DecodeRune s =
     (case s of
        [] \<Rightarrow> (RuneError, 0)
      | c0 # rest \<Rightarrow>
          (let s0 = (of_char c0 :: int) in
           if s0 < 0x80 then (s0, 1)
           else if s0 < 0xC2 \<or> 0xF4 < s0 then (RuneError, 1)
           else
             (let sz = (if s0 < 0xE0 then 2 else if s0 < 0xF0 then 3 else (4::nat));
                  lo = (if s0 = 0xE0 then 0xA0 else if s0 = 0xF0 then 0x90 else (0x80::int));
                  hi = (if s0 = 0xED then 0x9F else if s0 = 0xF4 then 0x8F else (0xBF::int))
              in
                if length s < sz then (RuneError, 1)
                else
                  (let s1 = (of_char (s ! 1) :: int) in
                   if s1 < lo \<or> hi < s1 then (RuneError, 1)
                   else if sz \<le> 2 then ((s0 mod 32) * 64 + s1 mod 64, 2)
                   else
                     (let s2 = (of_char (s ! 2) :: int) in
                      if s2 < 0x80 \<or> 0xBF < s2 then (RuneError, 1)
                      else if sz \<le> 3
                      then ((s0 mod 16) * 4096 + (s1 mod 64) * 64 + s2 mod 64, 3)
                      else
                        (let s3 = (of_char (s ! 3) :: int) in
                         if s3 < 0x80 \<or> 0xBF < s3 then (RuneError, 1)
                         else ((s0 mod 8) * 262144 + (s1 mod 64) * 4096 + (s2 mod 64) * 64
                                 + s3 mod 64, 4)))))))"

text \<open>
  \<open>utf8.RuneStart\<close>, and \<open>utf8.DecodeLastRuneInString\<close>: from the last byte the Go
  code steps back over at most three bytes to the nearest byte that can start a rune,
  decodes from there, and takes the rune only if it ends where the string ends.
\<close>

definition RuneStart :: "char \<Rightarrow> bool" where
  "RuneStart c = (\<not> (0x80 \<le> (of_char c :: int) \<and> (of_char c :: int) < 0xC0))"

definition DecodeLastRune :: "string \<Rightarrow> int \<times> nat" where
  "DecodeLastRune s =
     (if s = [] then (RuneError, 0)
      else if (of_char (last s) :: int) < 0x80 then (of_char (last s), 1)
      else
        (case find (\<lambda>k. k < length s \<and> RuneStart (s ! (length s - 1 - k))) [1, 2, 3] of
           None \<Rightarrow> (RuneError, 1)
         | Some k \<Rightarrow>
             (case DecodeRune (drop (length s - 1 - k) s) of
                (r, n) \<Rightarrow> if n = k + 1 then (r, n) else (RuneError, 1))))"

text \<open>
  \<open>utf8.AppendRune\<close>, which \<open>strings.Builder.WriteRune\<close> calls: a surrogate or a
  value outside \<open>0 .. U+10FFFF\<close> is written as \<open>RuneError\<close>.
\<close>

definition EncodeRune :: "int \<Rightarrow> string" where
  "EncodeRune r =
     (if 0 \<le> r \<and> r \<le> 0x7F then [char_of r]
      else if 0 \<le> r \<and> r \<le> 0x7FF then [char_of (0xC0 + r div 64), char_of (0x80 + r mod 64)]
      else if r < 0 \<or> 0x10FFFF < r \<or> (0xD800 \<le> r \<and> r \<le> 0xDFFF) then [CHR 0xEF, CHR 0xBF, CHR 0xBD]
      else if r \<le> 0xFFFF
      then [char_of (0xE0 + r div 4096), char_of (0x80 + (r div 64) mod 64),
            char_of (0x80 + r mod 64)]
      else [char_of (0xF0 + r div 262144), char_of (0x80 + (r div 4096) mod 64),
            char_of (0x80 + (r div 64) mod 64), char_of (0x80 + r mod 64)])"

text \<open>
  \<open>unicode.IsSpace\<close>: in Latin-1 the six ASCII spaces, NEL and NBSP; above Latin-1
  the runes of the table \<open>White_Space\<close>.
\<close>

definition IsSpace :: "int \<Rightarrow> bool" where
  "IsSpace r =
     (if 0 \<le> r \<and> r \<le> 0xFF then r \<in> set [0x09, 0x0A, 0x0B, 0x0C, 0x0D, 0x20, 0x85, 0xA0]
      else r = 0x1680 \<or> (0x2000 \<le> r \<and> r \<le> 0x200A) \<or> r = 0x2028 \<or> r = 0x2029
             \<or> r = 0x202F \<or> r = 0x205F \<or> r = 0x3000)"

subsection \<open>\<open>TrimSpace\<close>, \<open>TrimRight\<close> and \<open>Fields\<close>\<close>

text \<open>
  \<open>strings.TrimSpace\<close>: the white-space runes at the start are dropped, decoding
  forwards, and then those at the end, decoding backwards. A width that
  \<open>DecodeRune\<close> or \<open>DecodeLastRune\<close> returns for a non-empty string is at least 1,
  so \<open>drop (n - 1) cs\<close> is \<open>(c # cs)[n:]\<close>, and \<open>take (length s - n) (butlast s)\<close>
  is \<open>s[:len(s)-n]\<close>.
\<close>

fun trim_left :: "string \<Rightarrow> string" where
  "trim_left [] = []"
| "trim_left (c # cs) =
     (if is_ascii c then (if is_space c then trim_left cs else c # cs)
      else
        (case DecodeRune (c # cs) of
           (r, n) \<Rightarrow> if IsSpace r then trim_left (drop (n - 1) cs) else c # cs))"

function trim_right :: "string \<Rightarrow> string" where
  "trim_right s =
     (if s = [] then []
      else if is_ascii (last s) then (if is_space (last s) then trim_right (butlast s) else s)
      else
        (case DecodeLastRune s of
           (r, n) \<Rightarrow> if IsSpace r then trim_right (take (length s - n) (butlast s)) else s))"
  by pat_completeness auto
termination
  by (relation "measure length") (auto simp: min_less_iff_disj)

declare trim_right.simps [simp del]

definition TrimSpace :: "string \<Rightarrow> string" where
  "TrimSpace s = trim_right (trim_left s)"

text \<open>\<open>strings.TrimRight\<close> for a cutset of ASCII bytes.\<close>

definition TrimRight :: "string \<Rightarrow> string \<Rightarrow> string" where
  "TrimRight s cutset = rev (dropWhile (\<lambda>c. c \<in> set cutset) (rev s))"

text \<open>
  \<open>strings.Fields\<close>: the maximal runs of runes that are no white space, found by
  decoding forwards.
\<close>

fun fields_acc :: "string \<Rightarrow> string \<Rightarrow> string list" where
  "fields_acc cur [] = (if cur = [] then [] else [cur])"
| "fields_acc cur (c # cs) =
     (if is_ascii c then
        (if is_space c then (if cur = [] then fields_acc [] cs else cur # fields_acc [] cs)
         else fields_acc (cur @ [c]) cs)
      else
        (case DecodeRune (c # cs) of
           (r, n) \<Rightarrow>
             if IsSpace r
             then (if cur = [] then fields_acc [] (drop (n - 1) cs)
                   else cur # fields_acc [] (drop (n - 1) cs))
             else fields_acc (cur @ c # take (n - 1) cs) (drop (n - 1) cs)))"

definition Fields :: "string \<Rightarrow> string list" where
  "Fields s = fields_acc [] s"

text \<open>
  \<open>strings.Index\<close> and \<open>strings.LastIndex\<close> for a separator of one byte, which is
  all the program asks for: the position of the first (last) occurrence, or \<open>-1\<close>.
\<close>

fun index_from :: "int \<Rightarrow> string \<Rightarrow> char \<Rightarrow> int" where
  "index_from i [] c = -1"
| "index_from i (x # xs) c = (if x = c then i else index_from (i + 1) xs c)"

definition Index :: "string \<Rightarrow> char \<Rightarrow> int" where
  "Index s c = index_from 0 s c"

fun last_index_from :: "int \<Rightarrow> int \<Rightarrow> string \<Rightarrow> char \<Rightarrow> int" where
  "last_index_from i found [] c = found"
| "last_index_from i found (x # xs) c =
     last_index_from (i + 1) (if x = c then i else found) xs c"

definition LastIndex :: "string \<Rightarrow> char \<Rightarrow> int" where
  "LastIndex s c = last_index_from 0 (-1) s c"

text \<open>\<open>s[lo:hi]\<close> for \<open>0 \<le> lo \<le> hi \<le> len(s)\<close>, the only way the program slices.\<close>

definition slice :: "string \<Rightarrow> int \<Rightarrow> int \<Rightarrow> string" where
  "slice s lo hi = take (nat (hi - lo)) (drop (nat lo) s)"

text \<open>\<open>strings.SplitN(s, sep, 2)\<close> for a separator of one byte.\<close>

definition SplitN2 :: "string \<Rightarrow> char \<Rightarrow> string list" where
  "SplitN2 s c =
     (let i = Index s c in
      if i = -1 then [s] else [slice s 0 i, drop (nat (i + 1)) s])"

text \<open>\<open>strings.ReplaceAll\<close> for a non-empty \<open>old\<close>; matches are taken left to right.\<close>

function ReplaceAll :: "string \<Rightarrow> string \<Rightarrow> string \<Rightarrow> string" where
  "ReplaceAll [] old new = []"
| "ReplaceAll (c # cs) old new =
     (if old \<noteq> [] \<and> HasPrefix (c # cs) old
      then new @ ReplaceAll (drop (length old) (c # cs)) old new
      else c # ReplaceAll cs old new)"
  by pat_completeness auto
termination
  by (relation "measure (\<lambda>(s, old, new). length s)") auto

text \<open>The decimal text of an integer, as \<open>%d\<close> prints it.\<close>

function Itoa_nat :: "nat \<Rightarrow> string" where
  "Itoa_nat n =
     (if n < 10 then [''0123456789'' ! n]
      else Itoa_nat (n div 10) @ [''0123456789'' ! (n mod 10)])"
  by pat_completeness auto
termination
  by (relation "measure id") auto

declare Itoa_nat.simps [simp del]

definition Itoa :: "int \<Rightarrow> string" where
  "Itoa i = (if i < 0 then CHR ''-'' # Itoa_nat (nat (- i)) else Itoa_nat (nat i))"

section \<open>Address handling\<close>

text \<open>
  \<open>isValidEmail\<close> (smtp.go, lines 466 to 484). The address is split at the last
  \<open>@\<close>; nothing counts how many \<open>@\<close> there are.
\<close>

definition isValidEmail :: "string \<Rightarrow> bool" where
  "isValidEmail email =
     (if length email > 254 \<or> length email = 0 then False
      else
        let atIdx = LastIndex email (CHR ''@'') in
        if atIdx \<le> 0 \<or> atIdx \<ge> int (length email) - 1 then False
        else
          let localp = slice email 0 atIdx;
              domain = drop (nat (atIdx + 1)) email
          in
            if length localp > 64 \<or> length domain > 253 then False
            else if \<not> Contains domain ''.'' then False
            else True)"

text \<open>\<open>extractAddress\<close> (smtp.go, lines 487 to 499).\<close>

definition extractAddress :: "string \<Rightarrow> string" where
  "extractAddress line =
     (let start = Index line (CHR ''<'');
          end' = Index line (CHR ''>'')
      in
        if start \<noteq> -1 \<and> end' \<noteq> -1 \<and> end' > start then slice line (start + 1) end'
        else
          let parts = SplitN2 line (CHR '':'') in
          if length parts = 2 then TrimSpace (parts ! 1) else '''')"

section \<open>Configuration, standard library and the outside world\<close>

text \<open>
  The fields of \<open>tConfig\<close> that \<open>smtp.go\<close> reads. \<open>MaxMessageSize\<close> is an
  \<open>int64\<close> and the other numbers are \<open>int\<close>; they are modelled as \<^typ>\<open>int\<close>,
  and the one computation on them that wraps around (the backoff of \<open>doWithRetry\<close>)
  is done on 64-bit words.
\<close>

record tOAuth2Config =
  ClientID :: string
  ClientSecret :: string
  TenantID :: string
  Scopes :: "string list"

record tConfig =
  OAuth2Config :: tOAuth2Config
  FallbackSMTPuser :: string
  FallbackSMTPpass :: string
  SaveToSent :: bool
  MaxMessageSize :: int
  StrictAttachments :: bool
  RetryAttempts :: int
  RetryInitialDelay :: int

text \<open>
  What an HTTP client's \<open>Do\<close> gives, together with the later \<open>io.ReadAll\<close> of the
  response body: a transport error (with its text), or a status code and the body, which
  is either a read error \<open>Inl\<close> or the bytes \<open>Inr\<close>.
\<close>

datatype http_result =
  DoError string
| Response int "string + string"

text \<open>
  The struct that \<open>getOAuth2TokenWithExpiry\<close> unmarshals the token response into.
  \<open>ExpiresIn\<close> is a Go \<open>int\<close>, 64 bits wide on the platforms the program is
  released for.
\<close>

record token_response =
  AccessToken :: string
  ExpiresIn :: "64 word"
  Error :: string
  ErrorDesc :: string

type_synonym header = "(string \<times> string) list"

text \<open>\<open>Header.Get\<close>: the value stored under the key, or the empty string.\<close>

definition Get :: "header \<Rightarrow> string \<Rightarrow> string" where
  "Get h k = (case map_of h k of Some v \<Rightarrow> v | None \<Rightarrow> '''')"

text \<open>
  A part as \<open>multipart.Reader.NextPart\<close> returns it: its header, and what reading
  its body to the end gives (a read error \<open>Inl\<close>, or the raw bytes \<open>Inr\<close>).
\<close>

record part =
  PartHeader :: header
  PartBody :: "string + string"

text \<open>
  Everything the program takes from outside its own source is a field of \<open>env\<close>, so
  that a theorem with a free \<open>env\<close> holds whatever these functions do.
  \<^item> Pure functions of the standard library: \<open>DecodeString\<close>
    (\<open>base64.StdEncoding.DecodeString\<close>, \<open>None\<close> for an error), \<open>EncodeToString\<close>,
    \<open>Base64Read\<close> and \<open>QPRead\<close> (\<open>io.ReadAll\<close> over \<open>base64.NewDecoder\<close> and
    \<open>quotedprintable.NewReader\<close>), \<open>Unmarshal\<close> (\<open>json.Unmarshal\<close> into
    \<open>token_response\<close>), \<open>ReadMessage\<close> (\<open>mail.ReadMessage\<close>: header and body),
    \<open>DecodeHeader\<close>, \<open>ParseMediaType\<close> (media type and parameters), \<open>FileName\<close>
    (\<open>Part.FileName\<close>), \<open>NextParts\<close> (the parts that successive \<open>NextPart\<close> calls
    on \<open>multipart.NewReader(body, boundary)\<close> return before the first \<open>io.EOF\<close> or
    error), \<open>NewRequest\<close> (the error of \<open>http.NewRequestWithContext\<close> for a
    method and URL, \<open>None\<close> when there is none), \<open>Quote\<close> (the text that
    \<open>%q\<close> prints for a string), and \<open>UpperRune\<close> and \<open>LowerRune\<close>
    (\<open>unicode.ToUpper\<close> and \<open>unicode.ToLower\<close> on the runes above \<open>U+007F\<close>).
  \<^item> The world, asked in order: the \<open>n\<close>-th question the session puts to the world is
    answered by \<open>Now n\<close> (\<open>time.Now\<close>, in nanoseconds), \<open>AuthDo n\<close>
    (\<open>authHTTPClient.Do\<close>), \<open>GraphDo n\<close> (\<open>graphHTTPClient.Do\<close>) or
    \<open>CtxDone n\<close> (whether the context ends during a backoff wait, with the text of
    \<open>ctx.Err()\<close>).
  \<^item> \<open>ReadTimeout\<close>: whether the read that fails when the client's lines run out is a
    timeout.
\<close>

record env =
  DecodeString :: "string \<Rightarrow> string option"
  EncodeToString :: "string \<Rightarrow> string"
  Base64Read :: "string \<Rightarrow> string + string"
  QPRead :: "string \<Rightarrow> string + string"
  Unmarshal :: "string \<Rightarrow> string + token_response"
  ReadMessage :: "string \<Rightarrow> string + (header \<times> string)"
  DecodeHeader :: "string \<Rightarrow> string option"
  ParseMediaType :: "string \<Rightarrow> (string \<times> header) option"
  FileName :: "header \<Rightarrow> string"
  NextParts :: "string \<Rightarrow> string \<Rightarrow> part list"
  NewRequest :: "string \<Rightarrow> string \<Rightarrow> string option"
  Quote :: "string \<Rightarrow> string"
  UpperRune :: "int \<Rightarrow> int"
  LowerRune :: "int \<Rightarrow> int"
  Now :: "nat \<Rightarrow> int"
  AuthDo :: "nat \<Rightarrow> http_result"
  GraphDo :: "nat \<Rightarrow> http_result"
  CtxDone :: "nat \<Rightarrow> string option"
  ReadTimeout :: bool

text \<open>
  \<open>strings.ToUpper\<close> and \<open>strings.ToLower\<close>. An ASCII byte is mapped as the Go
  code maps it; any other rune is decoded, mapped by \<open>unicode.ToUpper\<close>
  (\<open>unicode.ToLower\<close>), which is the \<open>UpperRune\<close> (\<open>LowerRune\<close>) of the
  environment, and written back in UTF-8, as \<open>strings.Map\<close> does: a byte that
  is no valid UTF-8 is mapped as \<open>RuneError\<close>, and a rune mapped to a negative
  value is dropped.
\<close>

fun ToUpper :: "env \<Rightarrow> string \<Rightarrow> string" where
  "ToUpper e [] = []"
| "ToUpper e (c # cs) =
     (if is_ascii c then upper_char c # ToUpper e cs
      else
        (case DecodeRune (c # cs) of
           (r, n) \<Rightarrow>
             (if 0 \<le> UpperRune e r then EncodeRune (UpperRune e r) else [])
               @ ToUpper e (drop (n - 1) cs)))"

fun ToLower :: "env \<Rightarrow> string \<Rightarrow> string" where
  "ToLower e [] = []"
| "ToLower e (c # cs) =
     (if is_ascii c then lower_char c # ToLower e cs
      else
        (case DecodeRune (c # cs) of
           (r, n) \<Rightarrow>
             (if 0 \<le> LowerRune e r then EncodeRune (LowerRune e r) else [])
               @ ToLower e (drop (n - 1) cs)))"

text \<open>
  \<open>cachedToken\<close> and the package variable \<open>TokenCache\<close> (a \<open>sync.Map\<close> from user
  name to \<open>cachedToken\<close>). \<open>expiresAt\<close> is an instant in nanoseconds. The state of
  the world seen by one session run on its own is the cache and the number of questions
  already put to the world.
\<close>

record cachedToken =
  token :: string
  expiresAt :: int

record world =
  TokenCache :: "string \<rightharpoonup> cachedToken"
  tick :: nat

definition time_Now :: "env \<Rightarrow> world \<Rightarrow> int \<times> world" where
  "time_Now e w = (Now e (tick w), w\<lparr>tick := tick w + 1\<rparr>)"

definition auth_Do :: "env \<Rightarrow> world \<Rightarrow> http_result \<times> world" where
  "auth_Do e w = (AuthDo e (tick w), w\<lparr>tick := tick w + 1\<rparr>)"

definition graph_Do :: "env \<Rightarrow> world \<Rightarrow> http_result \<times> world" where
  "graph_Do e w = (GraphDo e (tick w), w\<lparr>tick := tick w + 1\<rparr>)"

definition ctx_Done :: "env \<Rightarrow> world \<Rightarrow> string option \<times> world" where
  "ctx_Done e w = (CtxDone e (tick w), w\<lparr>tick := tick w + 1\<rparr>)"

section \<open>The token cache\<close>

text \<open>
  \<open>getOAuth2TokenWithExpiry\<close> (smtp.go, lines 748 to 803). The form parameters of the
  request are not modelled: the answer of the token endpoint is the world's. The result
  is the error text \<open>Inl\<close>, or the access token and \<open>expires_in\<close>.
\<close>

definition getOAuth2TokenWithExpiry ::
  "env \<Rightarrow> tConfig \<Rightarrow> world \<Rightarrow> string \<Rightarrow> string \<Rightarrow> (string + string \<times> 64 word) \<times> world" where
  "getOAuth2TokenWithExpiry e cfg w username password =
     (let tokenURL = ''https://login.microsoftonline.com/'' @ TenantID (OAuth2Config cfg)
                       @ ''/oauth2/v2.0/token''
      in
        case NewRequest e ''POST'' tokenURL of
          Some err \<Rightarrow> (Inl (''failed to create token request: '' @ err), w)
        | None \<Rightarrow>
            (case auth_Do e w of
               (DoError err, w1) \<Rightarrow> (Inl (''token request failed: '' @ err), w1)
             | (Response status (Inl err), w1) \<Rightarrow>
                 (Inl (''failed to read token response: '' @ err), w1)
             | (Response status (Inr body), w1) \<Rightarrow>
                 (case Unmarshal e body of
                    Inl err \<Rightarrow>
                      (Inl (''failed to parse token response: '' @ err @ '', body: '' @ body), w1)
                  | Inr result \<Rightarrow>
                      if Error result \<noteq> ''''
                      then (Inl (''OAuth2 error: '' @ Error result @ '' - '' @ ErrorDesc result), w1)
                      else if AccessToken result = ''''
                      then (Inl (''no access token in response, body: '' @ body), w1)
                      else (Inr (AccessToken result, ExpiresIn result), w1))))"

text \<open>
  The cache look-up that \<open>getCachedOAuth2Token\<close> makes twice (lines 710 to 716 and
  721 to 726): the clock is read only when the key is present.
\<close>

definition cache_lookup :: "env \<Rightarrow> world \<Rightarrow> string \<Rightarrow> string option \<times> world" where
  "cache_lookup e w username =
     (case TokenCache w username of
        None \<Rightarrow> (None, w)
      | Some tok \<Rightarrow>
          (case time_Now e w of
             (now, w1) \<Rightarrow> (if now < expiresAt tok then (Some (token tok), w1) else (None, w1))))"

text \<open>
  The expiry stored at line 735:
  \<open>time.Now().Add(time.Duration(expiresIn-60) * time.Second)\<close>. The duration is a
  64-bit product in nanoseconds, read as a signed number.
\<close>

definition cache_expiry :: "int \<Rightarrow> 64 word \<Rightarrow> int" where
  "cache_expiry now expiresIn = now + sint ((expiresIn - 60) * 1000000000)"

text \<open>
  \<open>getCachedOAuth2Token\<close> (smtp.go, lines 708 to 745), for a session run on its own:
  \<open>tokenFetchGroup.Do\<close> then calls the function it is given.
\<close>

definition getCachedOAuth2Token ::
  "env \<Rightarrow> tConfig \<Rightarrow> world \<Rightarrow> string \<Rightarrow> string \<Rightarrow> (string + string) \<times> world" where
  "getCachedOAuth2Token e cfg w username password =
     (case cache_lookup e w username of
        (Some tok, w1) \<Rightarrow> (Inr tok, w1)
      | (None, w1) \<Rightarrow>
          (case cache_lookup e w1 username of
             (Some tok, w2) \<Rightarrow> (Inr tok, w2)
           | (None, w2) \<Rightarrow>
               (case getOAuth2TokenWithExpiry e cfg w2 username password of
                  (Inl err, w3) \<Rightarrow> (Inl err, w3)
                | (Inr (tok, expiresIn), w3) \<Rightarrow>
                    (case time_Now e w3 of
                       (now, w4) \<Rightarrow>
                         (Inr tok,
                          w4\<lparr>TokenCache := (TokenCache w4)
                               (username \<mapsto> \<lparr>token = tok, expiresAt = cache_expiry now expiresIn\<rparr>)\<rparr>)))))"

section \<open>The retry executor and the Graph submitter\<close>

record RetryConfig =
  MaxAttempts :: int
  InitialBackoff :: "64 word"
  MaxBackoff :: "64 word"
  RetryableStatus :: "int list"

text \<open>\<open>getRetryConfig\<close> (lines 72 to 79); durations are nanoseconds in 64 bits.\<close>

definition getRetryConfig :: "tConfig \<Rightarrow> RetryConfig" where
  "getRetryConfig cfg =
     \<lparr>MaxAttempts = RetryAttempts cfg,
      InitialBackoff = word_of_int (RetryInitialDelay cfg) * 1000000,
      MaxBackoff = 10 * 1000000000,
      RetryableStatus = [429, 500, 502, 503, 504]\<rparr>"

fun isRetryableStatus :: "int \<Rightarrow> int list \<Rightarrow> bool" where
  "isRetryableStatus status [] = False"
| "isRetryableStatus status (s # retryable) =
     (if status = s then True else isRetryableStatus status retryable)"

text \<open>
  The wait before a retry (lines 97 to 110). \<open>rand.Int63n\<close> panics when its argument
  is not positive; the jitter itself only lengthens the wait.
\<close>

datatype wait_result = WaitPanic | WaitCancelled string | WaitOk

definition backoff_wait :: "env \<Rightarrow> RetryConfig \<Rightarrow> int \<Rightarrow> world \<Rightarrow> wait_result \<times> world" where
  "backoff_wait e rc attempt w =
     (if attempt > 0 then
        let backoff0 = InitialBackoff rc * push_bit (nat (attempt - 1)) 1;
            backoff = (if sint backoff0 > sint (MaxBackoff rc) then MaxBackoff rc else backoff0)
        in
          if sint backoff sdiv 4 \<le> 0 then (WaitPanic, w)
          else
            (case ctx_Done e w of
               (Some err, w1) \<Rightarrow> (WaitCancelled err, w1)
             | (None, w1) \<Rightarrow> (WaitOk, w1))
      else (WaitOk, w))"

text \<open>
  \<open>doWithRetry\<close> (lines 92 to 139): the response is \<open>None\<close> for \<open>nil\<close>, or the
  status code and what reading the body gives; the error is \<open>None\<close> for \<open>nil\<close>.
\<close>

type_synonym response = "int \<times> (string + string)"

datatype retry_result = RetryPanic | RetryReturn "response option" "string option"

function doWithRetry_loop ::
  "env \<Rightarrow> string \<Rightarrow> string \<Rightarrow> RetryConfig \<Rightarrow> int \<Rightarrow> response option \<Rightarrow> string option \<Rightarrow> world
     \<Rightarrow> retry_result \<times> world" where
  "doWithRetry_loop e method url rc attempt resp lastErr w =
     (if attempt < MaxAttempts rc then
        (case backoff_wait e rc attempt w of
           (WaitPanic, w1) \<Rightarrow> (RetryPanic, w1)
         | (WaitCancelled err, w1) \<Rightarrow> (RetryReturn None (Some err), w1)
         | (WaitOk, w1) \<Rightarrow>
             (case NewRequest e method url of
                Some err \<Rightarrow> (RetryReturn None (Some (''failed to create request: '' @ err)), w1)
              | None \<Rightarrow>
                  (case graph_Do e w1 of
                     (DoError err, w2) \<Rightarrow>
                       doWithRetry_loop e method url rc (attempt + 1) None (Some err) w2
                   | (Response status b, w2) \<Rightarrow>
                       if \<not> isRetryableStatus status (RetryableStatus rc)
                       then (RetryReturn (Some (status, b)) None, w2)
                       else doWithRetry_loop e method url rc (attempt + 1) (Some (status, b))
                              (Some (''retryable status: '' @ Itoa status)) w2)))
      else (RetryReturn resp lastErr, w))"
  by pat_completeness auto
termination
  by (relation "measure (\<lambda>(e, method, url, rc, attempt, resp, lastErr, w).
                   nat (MaxAttempts rc - attempt))") auto

declare doWithRetry_loop.simps [simp del]

definition doWithRetry ::
  "env \<Rightarrow> string \<Rightarrow> string \<Rightarrow> RetryConfig \<Rightarrow> world \<Rightarrow> retry_result \<times> world" where
  "doWithRetry e method url rc w = doWithRetry_loop e method url rc 0 None None w"

record Attachment =
  Filename :: string
  ContentType :: string
  Content :: string

text \<open>
  \<open>sendMailGraphAPI\<close> (lines 628 to 695). The JSON document and the request headers
  shape the request only, and the answer is the world's; \<open>json.Marshal\<close> cannot fail on
  maps of strings and booleans. Using the body of a \<open>nil\<close> response (line 685) panics.
\<close>

datatype send_result = SendPanic | SendError string | SendOk

definition sendMailGraphAPI ::
  "env \<Rightarrow> tConfig \<Rightarrow> world \<Rightarrow> string \<Rightarrow> string \<Rightarrow> string \<Rightarrow> string list \<Rightarrow> string \<Rightarrow> string
     \<Rightarrow> bool \<Rightarrow> Attachment list \<Rightarrow> send_result \<times> world" where
  "sendMailGraphAPI e cfg w tok sender mailFrom' rcptTo' subject body isHTML attachments =
     (let graphURL = ''https://graph.microsoft.com/v1.0/users/'' @ sender @ ''/sendMail'' in
      case NewRequest e ''POST'' graphURL of
        Some err \<Rightarrow> (SendError (''failed to create request: '' @ err), w)
      | None \<Rightarrow>
          (case doWithRetry e ''POST'' graphURL (getRetryConfig cfg) w of
             (RetryPanic, w1) \<Rightarrow> (SendPanic, w1)
           | (RetryReturn resp (Some err), w1) \<Rightarrow>
               (SendError (''Graph API call failed after retries: '' @ err), w1)
           | (RetryReturn None None, w1) \<Rightarrow> (SendPanic, w1)
           | (RetryReturn (Some (status, b)) None, w1) \<Rightarrow>
               if status \<ge> 300 then
                 (case b of
                    Inl readErr \<Rightarrow>
                      (SendError (''Graph API error (status '' @ Itoa status
                                    @ '', failed to read body: '' @ readErr @ '')''), w1)
                  | Inr bytes \<Rightarrow>
                      (SendError (''Graph API error (status '' @ Itoa status @ ''): '' @ bytes), w1))
               else (SendOk, w1)))"

section \<open>The message normalizer\<close>

text \<open>\<open>decodeMessage\<close> (lines 612 to 625), on what reading \<open>r\<close> to the end gives.\<close>

definition decodeMessage :: "env \<Rightarrow> string \<Rightarrow> string + string \<Rightarrow> string + string" where
  "decodeMessage e c r =
     (case (if c = ''base64'' then (case r of Inl err \<Rightarrow> Inl err | Inr raw \<Rightarrow> Base64Read e raw)
            else if c = ''quoted-printable''
            then (case r of Inl err \<Rightarrow> Inl err | Inr raw \<Rightarrow> QPRead e raw)
            else r) of
        Inl err \<Rightarrow> Inl (''failed to read part: '' @ err)
      | Inr content \<Rightarrow> Inr content)"

definition maxParts :: nat where
  "maxParts = 100"

text \<open>
  The loop over the parts of the top-level multipart reader (lines 537 to 601). Every
  part is either an attachment or a body part; a part that is itself \<open>multipart/*\<close>
  has no branch of its own.
\<close>

fun walk_parts ::
  "env \<Rightarrow> tConfig \<Rightarrow> nat \<Rightarrow> part list \<Rightarrow> string \<Rightarrow> bool \<Rightarrow> Attachment list
     \<Rightarrow> string + (string \<times> bool \<times> Attachment list)" where
  "walk_parts e cfg partCount [] body isHTML attachments = Inr (body, isHTML, attachments)"
| "walk_parts e cfg partCount (p # ps) body isHTML attachments =
     (if partCount + 1 > maxParts then Inr (body, isHTML, attachments)
      else if HasPrefix (Get (PartHeader p) ''Content-Disposition'') ''attachment'' then
        (let filename0 = FileName e (PartHeader p);
             filename =
               (if filename0 = '''' then
                  (case ParseMediaType e (Get (PartHeader p) ''Content-Type'') of
                     None \<Rightarrow> filename0
                   | Some (mt, params) \<Rightarrow>
                       (case map_of params ''name'' of
                          Some n \<Rightarrow> if n \<noteq> '''' then n else filename0
                        | None \<Rightarrow> filename0))
                else filename0);
             ctype0 = Get (PartHeader p) ''Content-Type'';
             ctype = (if ctype0 = '''' then ''application/octet-stream'' else ctype0);
             attCTE = ToLower e (Get (PartHeader p) ''Content-Transfer-Encoding'')
         in
           case decodeMessage e attCTE (PartBody p) of
             Inl err \<Rightarrow>
               if StrictAttachments cfg
               then Inl (''failed to decode attachment '' @ Quote e filename @ '': '' @ err)
               else walk_parts e cfg (partCount + 1) ps body isHTML attachments
           | Inr dataContent \<Rightarrow>
               if filename = '''' \<or> ctype = '''' \<or> length dataContent = 0
               then walk_parts e cfg (partCount + 1) ps body isHTML attachments
               else walk_parts e cfg (partCount + 1) ps body isHTML
                      (attachments @
                         [\<lparr>Filename = filename, ContentType = ctype,
                           Content = EncodeToString e dataContent\<rparr>]))
      else
        (let cte = ToLower e (Get (PartHeader p) ''Content-Transfer-Encoding'') in
         case decodeMessage e cte (PartBody p) of
           Inl err \<Rightarrow> walk_parts e cfg (partCount + 1) ps body isHTML attachments
         | Inr dataContent \<Rightarrow>
             walk_parts e cfg (partCount + 1) ps dataContent
               (if Contains (ToLower e (Get (PartHeader p) ''Content-Type'')) ''html''
                then True else isHTML)
               attachments))"

text \<open>
  \<open>parseSubjectBodyAndAttachments\<close> (lines 510 to 610): the error text \<open>Inl\<close>, or
  subject, body, the HTML flag and the attachments. Reading \<open>m.Body\<close>, a reader over a
  string, cannot fail.
\<close>

definition parseSubjectBodyAndAttachments ::
  "env \<Rightarrow> tConfig \<Rightarrow> string \<Rightarrow> string + (string \<times> string \<times> bool \<times> Attachment list)" where
  "parseSubjectBodyAndAttachments e cfg msg0 =
     (let msg = (if \<not> HasSuffix msg0 [LF] then msg0 @ [LF] else msg0) in
      case ReadMessage e msg of
        Inl err \<Rightarrow> Inl (''mail.ReadMessage failed: '' @ err)
      | Inr (hdr, mbody) \<Rightarrow>
          (let subjectRaw = Get hdr ''Subject'';
               subject = (case DecodeHeader e subjectRaw of Some s \<Rightarrow> s | None \<Rightarrow> subjectRaw);
               ct = Get hdr ''Content-Type'';
               cte = ToLower e (Get hdr ''Content-Transfer-Encoding'');
               isHTML = Contains (ToLower e ct) ''html'';
               single =
                 (case decodeMessage e cte (Inr mbody) of
                    Inl err \<Rightarrow> Inl (''failed to decode message body: '' @ err)
                  | Inr dataContent \<Rightarrow> Inr (subject, dataContent, isHTML, []))
           in
             case ParseMediaType e ct of
               None \<Rightarrow> single
             | Some (mediaType, params) \<Rightarrow>
                 if HasPrefix mediaType ''multipart/'' then
                   (case walk_parts e cfg 0 (NextParts e mbody (Get params ''boundary''))
                           '''' isHTML [] of
                      Inl err \<Rightarrow> Inl err
                    | Inr (body, isHTML', attachments) \<Rightarrow> Inr (subject, body, isHTML', attachments))
                 else single))"

section \<open>The SMTP session\<close>

text \<open>
  The variables of \<open>handleSMTPConnection\<close> that live across commands. The client is
  the list of the lines that \<open>reader.ReadString('\n')\<close> returns, each with its line
  end; when the list is used up the next read fails. The replies are the strings
  written and flushed, in order.
\<close>

record session =
  username :: string
  password :: string
  authenticated :: bool
  mailFrom :: string
  rcptTo :: "string list"

text \<open>
  What one turn of the command loop ends with: the handler returns (and the deferred
  \<open>conn.Close\<close> runs), or the loop goes on with the session, the world and the lines
  not yet read.
\<close>

datatype "next" = Return | Continue session world "string list"

text \<open>
  The drain loop (lines 380 to 385) and the DATA loop (lines 361 to 392). The running
  size is an \<open>int64\<close>; a sum of line lengths does not reach its bound, so it is an
  \<^typ>\<open>int\<close> here.
\<close>

fun drain :: "string list \<Rightarrow> string list" where
  "drain [] = []"
| "drain (drainLine # ls) = (if TrimSpace drainLine = ''.'' then ls else drain ls)"

datatype data_result = DataReadError | DataTooLarge | DataDone string

fun read_data :: "tConfig \<Rightarrow> int \<Rightarrow> string \<Rightarrow> string list \<Rightarrow> data_result \<times> string list" where
  "read_data cfg messageSize dataBuffer [] = (DataReadError, [])"
| "read_data cfg messageSize dataBuffer (dataLine # ls) =
     (if TrimSpace dataLine = ''.'' then (DataDone dataBuffer, ls)
      else if messageSize + int (length dataLine) > MaxMessageSize cfg
      then (DataTooLarge, drain ls)
      else read_data cfg (messageSize + int (length dataLine)) (dataBuffer @ dataLine) ls)"

text \<open>The commands after the label \<open>continueLoop\<close> (lines 438 to 461).\<close>

definition continueLoop :: "env \<Rightarrow> string \<Rightarrow> session \<Rightarrow> world \<Rightarrow> string list \<Rightarrow> string list \<times> next" where
  "continueLoop e line st w rest =
     (if HasPrefix (ToUpper e line) ''QUIT'' then ([''221 2.0.0 Bye'' @ CRLF], Return)
      else if HasPrefix (ToUpper e line) ''RSET''
      then ([''250 2.0.0 Ok'' @ CRLF], Continue (st\<lparr>mailFrom := '''', rcptTo := []\<rparr>) w rest)
      else if HasPrefix (ToUpper e line) ''NOOP''
      then ([''250 2.0.0 Ok'' @ CRLF], Continue st w rest)
      else ([''502 5.5.2 Command not implemented'' @ CRLF], Continue st w rest))"

text \<open>Lines 395 to 398: every line end of the message becomes CR LF.\<close>

definition normalize_line_endings :: "string \<Rightarrow> string" where
  "normalize_line_endings msg =
     ReplaceAll (ReplaceAll (ReplaceAll msg CRLF [LF]) [CR] [LF]) [LF] CRLF"

text \<open>
  The DATA command (lines 347 to 436). After the size has been exceeded the source jumps
  to \<open>continueLoop\<close> with the command line still in \<open>line\<close>.
\<close>

definition data_cmd ::
  "env \<Rightarrow> tConfig \<Rightarrow> string \<Rightarrow> session \<Rightarrow> world \<Rightarrow> string list \<Rightarrow> string list \<times> next" where
  "data_cmd e cfg line st w rest =
     (if length (rcptTo st) = 0
      then ([''503 5.5.1 No recipients specified'' @ CRLF], Continue st w rest)
      else
        (case read_data cfg 0 '''' rest of
           (DataReadError, rest') \<Rightarrow> ([''354 End data with <CR><LF>.<CR><LF>'' @ CRLF], Return)
         | (DataTooLarge, rest') \<Rightarrow>
             (case continueLoop e line (st\<lparr>mailFrom := '''', rcptTo := []\<rparr>) w rest' of
                (out, nx) \<Rightarrow>
                  ([''354 End data with <CR><LF>.<CR><LF>'' @ CRLF,
                    ''552 5.3.4 Message too large (max '' @ Itoa (MaxMessageSize cfg)
                      @ '' bytes)'' @ CRLF] @ out, nx))
         | (DataDone dataBuffer, rest') \<Rightarrow>
             (let msg = normalize_line_endings dataBuffer in
                case parseSubjectBodyAndAttachments e cfg msg of
                  Inl parseErr \<Rightarrow>
                    ([''354 End data with <CR><LF>.<CR><LF>'' @ CRLF,
                      ''550 5.6.0 Message parsing failed: '' @ parseErr @ CRLF], Return)
                | Inr (subject, body, isHTML, attachments) \<Rightarrow>
                    (case getCachedOAuth2Token e cfg w (username st) (password st) of
                       (Inl err, w1) \<Rightarrow>
                         ([''354 End data with <CR><LF>.<CR><LF>'' @ CRLF,
                           ''451 4.7.0 Temporary authentication failure'' @ CRLF], Return)
                     | (Inr tok, w1) \<Rightarrow>
                         (case sendMailGraphAPI e cfg w1 tok (username st) (mailFrom st)
                                 (rcptTo st) subject body isHTML attachments of
                            (SendPanic, w2) \<Rightarrow>
                              ([''354 End data with <CR><LF>.<CR><LF>'' @ CRLF], Return)
                          | (SendError err, w2) \<Rightarrow>
                              ([''354 End data with <CR><LF>.<CR><LF>'' @ CRLF,
                                ''550 5.7.0 Delivery failed: '' @ err @ CRLF], Return)
                          | (SendOk, w2) \<Rightarrow>
                              ([''354 End data with <CR><LF>.<CR><LF>'' @ CRLF,
                                ''250 2.0.0 Ok: queued as graphapi'' @ CRLF],
                               Continue (st\<lparr>mailFrom := '''', rcptTo := []\<rparr>) w2 rest'))))))"

text \<open>
  AUTH LOGIN (lines 210 to 311). \<open>decodeBase64WithError\<close> returns the empty string
  with its error, and the source assigns it to \<open>username\<close> or \<open>password\<close> before
  it looks at the error. The text of the error is only logged.
\<close>

definition decodeBase64WithError :: "env \<Rightarrow> string \<Rightarrow> string option" where
  "decodeBase64WithError e s = DecodeString e s"

text \<open>Lines 282 to 310: the fallback credentials and the token fetch.\<close>

definition auth_verify ::
  "env \<Rightarrow> tConfig \<Rightarrow> session \<Rightarrow> world \<Rightarrow> string list \<Rightarrow> string list \<times> next" where
  "auth_verify e cfg st w rest =
     (if (username st = '''' \<or> password st = '''')
           \<and> (FallbackSMTPuser cfg = '''' \<or> FallbackSMTPpass cfg = '''')
      then ([''535 5.7.8 Authentication credentials invalid'' @ CRLF], Return)
      else
        (let st1 = (if username st = '''' \<or> password st = ''''
                    then st\<lparr>username := FallbackSMTPuser cfg, password := FallbackSMTPpass cfg\<rparr>
                    else st)
         in
           case getCachedOAuth2Token e cfg w (username st1) (password st1) of
             (Inl err, w1) \<Rightarrow> ([''535 5.7.8 Authentication failed'' @ CRLF], Return)
           | (Inr tok, w1) \<Rightarrow>
               ([''235 2.7.0 Authentication successful'' @ CRLF],
                Continue (st1\<lparr>authenticated := True\<rparr>) w1 rest)))"

text \<open>The password prompt and what follows it (lines 225 to 241, again 263 to 279).\<close>

definition auth_password ::
  "env \<Rightarrow> tConfig \<Rightarrow> session \<Rightarrow> world \<Rightarrow> string list \<Rightarrow> string list \<times> next" where
  "auth_password e cfg st w rest =
     (case rest of
        [] \<Rightarrow>
          ([''334 UGFzc3dvcmQ6'' @ CRLF,
            ''421 4.7.0 Connection error during authentication'' @ CRLF], Return)
      | passB64 # rest' \<Rightarrow>
          (case decodeBase64WithError e (TrimSpace passB64) of
             None \<Rightarrow>
               ([''334 UGFzc3dvcmQ6'' @ CRLF, ''501 5.5.4 Invalid base64 encoding'' @ CRLF],
                Continue (st\<lparr>password := ''''\<rparr>) w rest')
           | Some pw \<Rightarrow>
               (case auth_verify e cfg (st\<lparr>password := pw\<rparr>) w rest' of
                  (out, nx) \<Rightarrow> ((''334 UGFzc3dvcmQ6'' @ CRLF) # out, nx))))"

definition auth_login ::
  "env \<Rightarrow> tConfig \<Rightarrow> string \<Rightarrow> session \<Rightarrow> world \<Rightarrow> string list \<Rightarrow> string list \<times> next" where
  "auth_login e cfg line st w rest =
     (let parts = Fields line in
      if length parts = 3 then
        (case decodeBase64WithError e (TrimSpace (parts ! 2)) of
           None \<Rightarrow>
             ([''501 5.5.4 Invalid base64 encoding'' @ CRLF],
              Continue (st\<lparr>username := ''''\<rparr>) w rest)
         | Some u \<Rightarrow> auth_password e cfg (st\<lparr>username := u\<rparr>) w rest)
      else
        (case rest of
           [] \<Rightarrow>
             ([''334 VXNlcm5hbWU6'' @ CRLF,
               ''421 4.7.0 Connection error during authentication'' @ CRLF], Return)
         | userB64 # rest' \<Rightarrow>
             (case decodeBase64WithError e (TrimSpace userB64) of
                None \<Rightarrow>
                  ([''334 VXNlcm5hbWU6'' @ CRLF, ''501 5.5.4 Invalid base64 encoding'' @ CRLF],
                   Continue (st\<lparr>username := ''''\<rparr>) w rest')
              | Some u \<Rightarrow>
                  (case auth_password e cfg (st\<lparr>username := u\<rparr>) w rest' of
                     (out, nx) \<Rightarrow> ((''334 VXNlcm5hbWU6'' @ CRLF) # out, nx)))))"

text \<open>One turn of the command loop (lines 168 to 462).\<close>

definition step ::
  "env \<Rightarrow> tConfig \<Rightarrow> session \<Rightarrow> world \<Rightarrow> string list \<Rightarrow> string list \<times> next" where
  "step e cfg st w inp =
     (case inp of
        [] \<Rightarrow>
          ([if ReadTimeout e then ''421 4.4.2 Connection timeout'' @ CRLF
            else ''421 4.7.0 Service not available'' @ CRLF], Return)
      | l # rest \<Rightarrow>
          if length l > 512 then ([''500 5.5.1 Line too long'' @ CRLF], Continue st w rest)
          else
            (let line = TrimRight l [CR, LF] in
             if line = '''' then ([], Continue st w rest)
             else if HasPrefix (ToUpper e line) ''EHLO'' \<or> HasPrefix (ToUpper e line) ''HELO''
             then ([''250-smtpRelay'' @ CRLF @ ''250 AUTH LOGIN'' @ CRLF], Continue st w rest)
             else if HasPrefix (ToUpper e line) ''AUTH LOGIN'' then auth_login e cfg line st w rest
             else if \<not> authenticated st
             then ([''530 5.7.0 Authentication required'' @ CRLF], Continue st w rest)
             else if HasPrefix (ToUpper e line) ''MAIL FROM:'' then
               (if extractAddress line = ''''
                then ([''501 5.1.7 Invalid sender address'' @ CRLF],
                      Continue (st\<lparr>mailFrom := extractAddress line\<rparr>) w rest)
                else ([''250 2.1.0 Ok'' @ CRLF],
                      Continue (st\<lparr>mailFrom := extractAddress line\<rparr>) w rest))
             else if HasPrefix (ToUpper e line) ''RCPT TO:'' then
               (if extractAddress line = '''' \<or> \<not> isValidEmail (extractAddress line)
                then ([''553 5.1.3 Invalid recipient address'' @ CRLF], Continue st w rest)
                else ([''250 2.1.5 Ok'' @ CRLF],
                      Continue (st\<lparr>rcptTo := rcptTo st @ [extractAddress line]\<rparr>) w rest))
             else if HasPrefix (ToUpper e line) ''DATA'' then data_cmd e cfg line st w rest
             else continueLoop e line st w rest))"

text \<open>
  The command loop, and \<open>handleSMTPConnection\<close> (lines 142 to 463): the greeting,
  then the loop from the empty session.
\<close>

function serve :: "env \<Rightarrow> tConfig \<Rightarrow> session \<Rightarrow> world \<Rightarrow> string list \<Rightarrow> string list" where
  "serve e cfg st w inp =
     (case step e cfg st w inp of
        (out, Return) \<Rightarrow> out
      | (out, Continue st' w' rest) \<Rightarrow> out @ serve e cfg st' w' rest)"
  by pat_completeness auto

definition session0 :: session where
  "session0 = \<lparr>username = '''', password = '''', authenticated = False,
               mailFrom = '''', rcptTo = []\<rparr>"

definition handleSMTPConnection :: "env \<Rightarrow> tConfig \<Rightarrow> world \<Rightarrow> string list \<Rightarrow> string list" where
  "handleSMTPConnection e cfg w inp = (''220 SMTP Relay Ready'' @ CRLF) # serve e cfg session0 w inp"

section \<open>The address check in the words of the specification\<close>

text \<open>
  The validity check as the specification words it, read with the split the source
  makes: the domain is what follows the last \<open>@\<close> and the local part is what stands
  before it. An address passes when it is not empty and has at most 254 bytes, holds an
  \<open>@\<close>, its local part has 1 to 64 bytes, and its domain has 1 to 253 bytes and holds
  a dot.
\<close>

definition domain_part :: "string \<Rightarrow> string" where
  "domain_part a = rev (takeWhile (\<lambda>c. c \<noteq> CHR ''@'') (rev a))"

definition local_part :: "string \<Rightarrow> string" where
  "local_part a = rev (tl (dropWhile (\<lambda>c. c \<noteq> CHR ''@'') (rev a)))"

definition address_ok :: "string \<Rightarrow> bool" where
  "address_ok a =
     (a \<noteq> [] \<and> length a \<le> 254 \<and> CHR ''@'' \<in> set a
      \<and> 1 \<le> length (local_part a) \<and> length (local_part a) \<le> 64
      \<and> 1 \<le> length (domain_part a) \<and> length (domain_part a) \<le> 253
      \<and> CHR ''.'' \<in> set (domain_part a))"

section \<open>A scripted environment for running examples\<close>

text \<open>
  The examples below run the session against a scripted environment. Its
  standard-library functions are tabulated on the strings the examples reach (the
  base64 texts of \<open>user@ex.com\<close> and \<open>secret\<close>, two messages, one token response)
  and answer everything else with an error or the empty value; its case tables leave
  every rune above \<open>U+007F\<close> as it is (the examples hold no letter there); the token endpoint
  answers 200 with a token that lasts an hour, Graph answers 202, the clock stands at 0
  and no context ends early. \<open>cfg0\<close> holds the defaults that \<open>loadConfig\<close> sets.
\<close>

definition token_json :: string where
  "token_json =
     ''{'' @ [CHR 0x22] @ ''access_token'' @ [CHR 0x22] @ '':'' @ [CHR 0x22] @ ''tok''
       @ [CHR 0x22] @ '','' @ [CHR 0x22] @ ''expires_in'' @ [CHR 0x22] @ '':3600}''"

definition scripted_env :: env where
  "scripted_env =
     \<lparr>DecodeString = map_of [(''dXNlckBleC5jb20='', ''user@ex.com''), (''c2VjcmV0'', ''secret'')],
      EncodeToString = (\<lambda>s. ''''),
      Base64Read = (\<lambda>s. Inl ''not scripted''),
      QPRead = (\<lambda>s. Inl ''not scripted''),
      Unmarshal = (\<lambda>s. if s = token_json
                         then Inr \<lparr>AccessToken = ''tok'', ExpiresIn = 3600, Error = '''',
                                   ErrorDesc = ''''\<rparr>
                         else Inl ''invalid character''),
      ReadMessage = (\<lambda>s. if s = ''Subject: Hi'' @ CRLF @ CRLF @ ''Hello.'' @ CRLF
                           then Inr ([(''Subject'', ''Hi'')], ''Hello.'' @ CRLF)
                           else if s = ''garbage'' @ CRLF
                           then Inl ''malformed MIME header line: garbage''
                           else Inl ''not scripted''),
      DecodeHeader = (\<lambda>s. Some s),
      ParseMediaType = (\<lambda>s. None),
      FileName = (\<lambda>h. ''''),
      NextParts = (\<lambda>b boundary. []),
      NewRequest = (\<lambda>m u. None),
      Quote = (\<lambda>s. s),
      UpperRune = (\<lambda>r. r),
      LowerRune = (\<lambda>r. r),
      Now = (\<lambda>n. 0),
      AuthDo = (\<lambda>n. Response 200 (Inr token_json)),
      GraphDo = (\<lambda>n. Response 202 (Inr '''')),
      CtxDone = (\<lambda>n. None),
      ReadTimeout = False\<rparr>"

definition cfg0 :: tConfig where
  "cfg0 =
     \<lparr>OAuth2Config = \<lparr>ClientID = ''client'', ClientSecret = ''client-secret'',
                       TenantID = ''tenant'', Scopes = [''https://graph.microsoft.com/.default'']\<rparr>,
      FallbackSMTPuser = '''',
      FallbackSMTPpass = '''',
      SaveToSent = False,
      MaxMessageSize = 26214400,
      StrictAttachments = False,
      RetryAttempts = 3,
      RetryInitialDelay = 500\<rparr>"

definition world0 :: world where
  "world0 = \<lparr>TokenCache = Map.empty, tick = 0\<rparr>"

text \<open>A session after a successful AUTH LOGIN of \<open>user@ex.com\<close>, with one recipient.\<close>

definition authed :: session where
  "authed = \<lparr>username = ''user@ex.com'', password = ''secret'', authenticated = True,
              mailFrom = '''', rcptTo = []\<rparr>"

section \<open>Termination of the command loop\<close>

lemma drain_length: "length (drain ls) \<le> length ls"
  by (induction ls) auto

lemma read_data_length: "length (snd (read_data cfg n buf ls)) \<le> length ls"
proof (induction ls arbitrary: n buf)
  case Nil
  show ?case by simp
next
  case (Cons l ls)
  have "length (drain ls) \<le> Suc (length ls)"
    using drain_length [of ls] by simp
  moreover have "length (snd (read_data cfg (n + int (length l)) (buf @ l) ls)) \<le> Suc (length ls)"
    using Cons.IH [of "n + int (length l)" "buf @ l"] by simp
  ultimately show ?case by simp
qed

lemma continueLoop_rest:
  "continueLoop e line st w rest = (out, Continue st' w' rest') \<Longrightarrow> rest' = rest"
  by (auto simp: continueLoop_def split: if_splits)

lemma data_cmd_rest:
  assumes "data_cmd e cfg line st w rest = (out, Continue st' w' rest')"
  shows "length rest' \<le> length rest"
proof -
  obtain r rd where rd: "read_data cfg 0 '''' rest = (r, rd)"
    by (cases "read_data cfg 0 '''' rest")
  have le: "length rd \<le> length rest"
    using read_data_length [of cfg 0 "''''" rest] rd by simp
  show ?thesis
    using assms rd le
    by (auto simp: data_cmd_def Let_def
        split: if_splits data_result.splits sum.splits prod.splits send_result.splits
        dest: continueLoop_rest)
qed

lemma auth_verify_rest:
  "auth_verify e cfg st w rest = (out, Continue st' w' rest') \<Longrightarrow> rest' = rest"
  by (auto simp: auth_verify_def Let_def split: if_splits prod.splits sum.splits)

lemma auth_password_rest:
  "auth_password e cfg st w rest = (out, Continue st' w' rest') \<Longrightarrow> length rest' \<le> length rest"
  by (auto simp: auth_password_def split: list.splits option.splits prod.splits
      dest: auth_verify_rest)

lemma auth_login_rest:
  "auth_login e cfg line st w rest = (out, Continue st' w' rest') \<Longrightarrow> length rest' \<le> length rest"
  by (fastforce simp: auth_login_def Let_def
      split: if_splits list.splits option.splits prod.splits
      dest: auth_password_rest)

lemma step_rest:
  assumes "step e cfg st w inp = (out, Continue st' w' rest')"
  shows "length rest' < length inp"
proof (cases inp)
  case Nil
  with assms show ?thesis by (simp add: step_def)
next
  case (Cons l rest)
  with assms show ?thesis
    by (auto simp: step_def Let_def split: if_splits
        dest: auth_login_rest data_cmd_rest continueLoop_rest)
qed

termination serve
  by (relation "measure (\<lambda>(e, cfg, st, w, inp). length inp)")
     (auto dest: step_rest [OF sym])

declare serve.simps [simp del]

section \<open>Facts about the string helpers\<close>

lemmas str_defs = HasPrefix_def HasSuffix_def upper_char_def lower_char_def is_space_def
  is_ascii_def TrimSpace_def trim_right.simps TrimRight_def Fields_def Index_def LastIndex_def
  slice_def SplitN2_def CR_def LF_def CRLF_def

lemma HasPrefix_Cons: "HasPrefix u (c # p) \<Longrightarrow> \<exists>t. u = c # t"
  by (cases u) (auto simp: HasPrefix_def)

lemma HasPrefix_Cons_Cons: "HasPrefix (c # t) (d # p) = (c = d \<and> HasPrefix t p)"
  by (simp add: HasPrefix_def)

lemma HasPrefix_Nil: "HasPrefix t []"
  by (simp add: HasPrefix_def)

lemma HasPrefix_Nil_left: "HasPrefix [] (d # p) = False"
  by (simp add: HasPrefix_def)

lemma ToUpper_Nil: "ToUpper e [] = []"
  by simp

lemmas HasPrefix_simps = HasPrefix_Cons_Cons HasPrefix_Nil HasPrefix_Nil_left ToUpper_Nil

section \<open>The code's address check is the specification's\<close>

lemma last_index_from_eq:
  "last_index_from i found s c =
     (if c \<in> set s
      then i + int (length s) - 1 - int (length (takeWhile (\<lambda>x. x \<noteq> c) (rev s)))
      else found)"
proof (induction s arbitrary: i found)
  case Nil
  show ?case by simp
next
  case (Cons x xs)
  show ?case
  proof (cases "c \<in> set xs")
    case True
    then have "takeWhile (\<lambda>x. x \<noteq> c) (rev xs @ [x]) = takeWhile (\<lambda>x. x \<noteq> c) (rev xs)"
      by (intro takeWhile_append1 [of c]) auto
    with True show ?thesis by (simp add: Cons.IH)
  next
    case False
    then have "takeWhile (\<lambda>x. x \<noteq> c) (rev xs @ [x]) = rev xs @ takeWhile (\<lambda>x. x \<noteq> c) [x]"
      by (intro takeWhile_append2) auto
    then have len: "length (takeWhile (\<lambda>x. x \<noteq> c) (rev xs @ [x]))
                      = (if x = c then length xs else Suc (length xs))"
      by simp
    have "last_index_from i found (x # xs) c = (if x = c then i else found)"
      using False by (simp add: Cons.IH)
    moreover have "(if c \<in> set (x # xs)
        then i + int (length (x # xs)) - 1
               - int (length (takeWhile (\<lambda>x. x \<noteq> c) (rev (x # xs))))
        else found) = (if x = c then i else found)"
      using False by (simp only: rev.simps len) auto
    ultimately show ?thesis by simp
  qed
qed

lemma takeWhile_length_less:
  assumes "c \<in> set s"
  shows "length (takeWhile (\<lambda>x. x \<noteq> c) (rev s)) < length s"
proof -
  have "takeWhile (\<lambda>x. x \<noteq> c) (rev s) \<noteq> rev s"
    using assms by (auto simp: takeWhile_eq_all_conv)
  moreover have "length (takeWhile (\<lambda>x. x \<noteq> c) (rev s)) \<le> length (rev s)"
    by (rule length_takeWhile_le)
  moreover have "length (takeWhile (\<lambda>x. x \<noteq> c) (rev s)) = length (rev s)
                   \<Longrightarrow> takeWhile (\<lambda>x. x \<noteq> c) (rev s) = rev s"
    by (metis takeWhile_eq_take take_all order_refl)
  ultimately show ?thesis
    by (cases "length (takeWhile (\<lambda>x. x \<noteq> c) (rev s)) = length (rev s)") auto
qed

lemma LastIndex_eq:
  "c \<in> set s \<Longrightarrow>
     LastIndex s c = int (length s) - 1 - int (length (takeWhile (\<lambda>x. x \<noteq> c) (rev s)))"
  "c \<notin> set s \<Longrightarrow> LastIndex s c = -1"
  by (simp_all add: LastIndex_def last_index_from_eq)

lemma length_domain_part: "length (domain_part a) = length (takeWhile (\<lambda>x. x \<noteq> CHR ''@'') (rev a))"
  by (simp add: domain_part_def)

lemma length_local_part:
  "length (local_part a) = length a - length (takeWhile (\<lambda>x. x \<noteq> CHR ''@'') (rev a)) - 1"
proof -
  have "length (dropWhile (\<lambda>x. x \<noteq> CHR ''@'') (rev a))
          = length (rev a) - length (takeWhile (\<lambda>x. x \<noteq> CHR ''@'') (rev a))"
    by (metis add_diff_cancel_left' length_append takeWhile_dropWhile_id)
  then show ?thesis by (simp add: local_part_def)
qed

lemma drop_domain_part:
  "drop (length a - length (takeWhile (\<lambda>x. x \<noteq> CHR ''@'') (rev a))) a = domain_part a"
proof -
  let ?k = "length (takeWhile (\<lambda>x. x \<noteq> CHR ''@'') (rev a))"
  have "takeWhile (\<lambda>x. x \<noteq> CHR ''@'') (rev a) = take ?k (rev a)"
    by (rule takeWhile_eq_take)
  then have "domain_part a = rev (take ?k (rev a))"
    by (simp add: domain_part_def)
  also have "\<dots> = drop (length a - ?k) a"
    by (simp add: rev_take)
  finally show ?thesis by simp
qed

lemma Contains_dot: "Contains s ''.'' = (CHR ''.'' \<in> set s)"
  by (induction s) (auto simp: HasPrefix_def)

lemma isValidEmail_address_ok: "isValidEmail a = address_ok a"
proof (cases "CHR ''@'' \<in> set a")
  case False
  then show ?thesis
    by (simp add: isValidEmail_def address_ok_def LastIndex_eq(2) Let_def)
next
  case True
  let ?k = "length (takeWhile (\<lambda>x. x \<noteq> CHR ''@'') (rev a))"
  have k: "?k < length a"
    using True by (rule takeWhile_length_less)
  have at: "LastIndex a (CHR ''@'') = int (length a) - 1 - int ?k"
    using True by (rule LastIndex_eq(1))
  have idx: "nat (int (length a) - 1 - int ?k + 1) = length a - ?k"
    using k by simp
  have dom: "drop (nat (LastIndex a (CHR ''@'') + 1)) a = domain_part a"
    by (simp only: at idx drop_domain_part)
  have loc: "length (slice a 0 (LastIndex a (CHR ''@''))) = length (local_part a)"
    using k by (simp add: slice_def at length_local_part)
  have ne: "a \<noteq> []"
    using True by auto
  show ?thesis
    unfolding isValidEmail_def address_ok_def Let_def dom loc Contains_dot
    using k True ne
    by (auto simp: at length_local_part length_domain_part Suc_le_eq)
qed

section \<open>Claims about the DATA phase\<close>

text \<open>
  Claim C1 says that a DATA line whose first byte is a dot loses that dot before it is
  appended to the message buffer. The DATA loop of \<open>smtp.go\<close> appends every line as it
  was read: for the client's lines \<open>..example.com is a domain\<close> and \<open>.\<close> the buffer
  handed on still begins with two dots.
\<close>

theorem data_keeps_stuffed_dot:
  "read_data cfg0 0 '''' [''..example.com is a domain'' @ CRLF, ''.'' @ CRLF]
     = (DataDone (''..example.com is a domain'' @ CRLF), [])"
  by code_simp

text \<open>
  Claim C3 says that a message over the size limit is answered with the 552 reply and
  with no other reply. Run on the second scenario of the specification (limit 10, a
  line of 20 bytes, then the terminator, then another MAIL FROM), the handler writes
  552 and, after the jump to \<open>continueLoop\<close> with the DATA line still in hand, also
  \<open>502 5.5.2 Command not implemented\<close>. The envelope is cleared and the next MAIL
  FROM is accepted, as the claim says.
\<close>

theorem too_large_also_replies_502:
  "handleSMTPConnection scripted_env (cfg0\<lparr>MaxMessageSize := 10\<rparr>) world0
     [''EHLO x'' @ CRLF,
      ''AUTH LOGIN'' @ CRLF, ''dXNlckBleC5jb20='' @ CRLF, ''c2VjcmV0'' @ CRLF,
      ''MAIL FROM:<a@b.c>'' @ CRLF, ''RCPT TO:<r@x.y>'' @ CRLF,
      ''DATA'' @ CRLF, ''12345678901234567890'' @ CRLF, ''.'' @ CRLF,
      ''MAIL FROM:<a@b.c>'' @ CRLF]
   = [''220 SMTP Relay Ready'' @ CRLF,
      ''250-smtpRelay'' @ CRLF @ ''250 AUTH LOGIN'' @ CRLF,
      ''334 VXNlcm5hbWU6'' @ CRLF, ''334 UGFzc3dvcmQ6'' @ CRLF,
      ''235 2.7.0 Authentication successful'' @ CRLF,
      ''250 2.1.0 Ok'' @ CRLF, ''250 2.1.5 Ok'' @ CRLF,
      ''354 End data with <CR><LF>.<CR><LF>'' @ CRLF,
      ''552 5.3.4 Message too large (max 10 bytes)'' @ CRLF,
      ''502 5.5.2 Command not implemented'' @ CRLF,
      ''250 2.1.0 Ok'' @ CRLF,
      ''421 4.7.0 Service not available'' @ CRLF]"
  by code_simp

section \<open>Claims about upstream errors and the token cache\<close>

text \<open>
  Claim C2 says that no error text sent to the client holds the body of an upstream
  response, and that a token-fetch error returned by the cache omits the body of the
  token endpoint's response. In \<open>smtp.go\<close> both hold the body. Whatever body \<open>b\<close>
  Graph sends with a status 400, an authenticated session with a cached token answers
  the end of DATA with \<open>550 5.7.0 Delivery failed: Graph API error (status 400): b\<close>;
  and whatever body \<open>b\<close> the token endpoint sends without an access token, the error
  that \<open>getCachedOAuth2Token\<close> returns ends with \<open>b\<close>.
\<close>

theorem upstream_body_in_error_text:
  "step
       (e\<lparr>ReadMessage := \<lambda>s. Inr ([], ''''), ParseMediaType := \<lambda>s. None,
          NewRequest := \<lambda>m u. None, Now := \<lambda>n. 0, GraphDo := \<lambda>n. Response 400 (Inr b)\<rparr>)
       (cfg\<lparr>RetryAttempts := 3\<rparr>)
       (st\<lparr>username := u, authenticated := True, rcptTo := [r]\<rparr>)
       (w\<lparr>TokenCache := [u \<mapsto> \<lparr>token = t, expiresAt = 1\<rparr>]\<rparr>)
       [''DATA'' @ CRLF, ''.'' @ CRLF]
     = ([''354 End data with <CR><LF>.<CR><LF>'' @ CRLF,
         ''550 5.7.0 Delivery failed: Graph API error (status 400): '' @ b @ CRLF], Return)
   \<and> fst (getCachedOAuth2Token
       (e\<lparr>NewRequest := \<lambda>m u. None, AuthDo := \<lambda>n. Response 200 (Inr b),
          Unmarshal := \<lambda>s. Inr \<lparr>AccessToken = '''', ExpiresIn = 0, Error = '''', ErrorDesc = ''''\<rparr>\<rparr>)
       cfg (w\<lparr>TokenCache := Map.empty\<rparr>) u p)
     = Inl (''no access token in response, body: '' @ b)"
proof -
  have send: "sendMailGraphAPI
       (e\<lparr>ReadMessage := \<lambda>s. Inr ([], ''''), ParseMediaType := \<lambda>s. None,
          NewRequest := \<lambda>m u. None, Now := \<lambda>n. 0, GraphDo := \<lambda>n. Response 400 (Inr b)\<rparr>)
       (cfg\<lparr>RetryAttempts := 3\<rparr>) w' tok sender mf rcpts subj body html atts
     = (SendError (''Graph API error (status 400): '' @ b), w'\<lparr>tick := tick w' + 1\<rparr>)"
    for w' tok sender mf rcpts subj body html atts
    by (simp add: sendMailGraphAPI_def doWithRetry_def doWithRetry_loop.simps backoff_wait_def
        getRetryConfig_def graph_Do_def Itoa_def Itoa_nat.simps)
  have parse: "parseSubjectBodyAndAttachments
       (e\<lparr>ReadMessage := \<lambda>s. Inr ([], ''''), ParseMediaType := \<lambda>s. None,
          NewRequest := \<lambda>m u. None, Now := \<lambda>n. 0, GraphDo := \<lambda>n. Response 400 (Inr b)\<rparr>)
       cfg' msg
     = Inr (case DecodeHeader e '''' of Some s \<Rightarrow> s | None \<Rightarrow> '''', '''', False, [])"
    for cfg' msg
    by (simp add: parseSubjectBodyAndAttachments_def Let_def Get_def decodeMessage_def
        split: option.splits)
  have tok: "getCachedOAuth2Token
       (e\<lparr>ReadMessage := \<lambda>s. Inr ([], ''''), ParseMediaType := \<lambda>s. None,
          NewRequest := \<lambda>m u. None, Now := \<lambda>n. 0, GraphDo := \<lambda>n. Response 400 (Inr b)\<rparr>)
       cfg' (w\<lparr>TokenCache := [u \<mapsto> \<lparr>token = t, expiresAt = 1\<rparr>]\<rparr>) u pw
     = (Inr t, w\<lparr>TokenCache := [u \<mapsto> \<lparr>token = t, expiresAt = 1\<rparr>], tick := tick w + 1\<rparr>)"
    for cfg' pw
    by (simp add: getCachedOAuth2Token_def cache_lookup_def time_Now_def)
  have a: "step
       (e\<lparr>ReadMessage := \<lambda>s. Inr ([], ''''), ParseMediaType := \<lambda>s. None,
          NewRequest := \<lambda>m u. None, Now := \<lambda>n. 0, GraphDo := \<lambda>n. Response 400 (Inr b)\<rparr>)
       (cfg\<lparr>RetryAttempts := 3\<rparr>)
       (st\<lparr>username := u, authenticated := True, rcptTo := [r]\<rparr>)
       (w\<lparr>TokenCache := [u \<mapsto> \<lparr>token = t, expiresAt = 1\<rparr>]\<rparr>)
       [''DATA'' @ CRLF, ''.'' @ CRLF]
     = ([''354 End data with <CR><LF>.<CR><LF>'' @ CRLF,
         ''550 5.7.0 Delivery failed: Graph API error (status 400): '' @ b @ CRLF], Return)"
    by (simp add: step_def data_cmd_def send parse tok str_defs)
  have b: "fst (getCachedOAuth2Token
       (e\<lparr>NewRequest := \<lambda>m u. None, AuthDo := \<lambda>n. Response 200 (Inr b),
          Unmarshal := \<lambda>s. Inr \<lparr>AccessToken = '''', ExpiresIn = 0, Error = '''', ErrorDesc = ''''\<rparr>\<rparr>)
       cfg (w\<lparr>TokenCache := Map.empty\<rparr>) u p)
     = Inl (''no access token in response, body: '' @ b)"
    by (simp add: getCachedOAuth2Token_def cache_lookup_def getOAuth2TokenWithExpiry_def
        auth_Do_def)
  from a b show ?thesis by (rule conjI)
qed

text \<open>
  Claim C4 says that the stored expiry is \<open>now + max(30s, expires_in - 60s)\<close>, so that
  an \<open>expires_in\<close> of 10 still leaves at least 30 seconds. Line 735 of \<open>smtp.go\<close>
  stores \<open>now + (expires_in - 60)\<close> seconds with no floor: on a cold cache, when the
  endpoint reports \<open>expires_in = 10\<close>, the entry stored expires 50 seconds before the
  instant at which it is stored.
\<close>

theorem short_lifetime_is_stored_expired:
  "getCachedOAuth2Token
     (e\<lparr>NewRequest := \<lambda>m u. None, AuthDo := \<lambda>n. Response 200 (Inr b),
        Unmarshal := \<lambda>s. Inr \<lparr>AccessToken = ''tok'', ExpiresIn = 10, Error = '''', ErrorDesc = ''''\<rparr>,
        Now := \<lambda>n. now\<rparr>)
     cfg \<lparr>TokenCache = Map.empty, tick = 0\<rparr> u p
   = (Inr ''tok'',
      \<lparr>TokenCache = [u \<mapsto> \<lparr>token = ''tok'', expiresAt = now - 50000000000\<rparr>], tick = 2\<rparr>)"
  by (simp add: getCachedOAuth2Token_def cache_lookup_def getOAuth2TokenWithExpiry_def auth_Do_def
      time_Now_def cache_expiry_def)

section \<open>Claims about AUTH PLAIN and nested multipart messages\<close>

text \<open>
  Claim C7 says that the session accepts AUTH PLAIN, bare or with the payload inline.
  The command loop of \<open>smtp.go\<close> has a branch for AUTH LOGIN only: a fresh session
  answers both forms of AUTH PLAIN with \<open>530 5.7.0 Authentication required\<close> and
  stays unauthenticated, whatever the environment.
\<close>

theorem auth_plain_is_rejected:
  "step e cfg session0 w ((''AUTH PLAIN'' @ CRLF) # ls)
     = ([''530 5.7.0 Authentication required'' @ CRLF], Continue session0 w ls)
   \<and> step e cfg session0 w ((''AUTH PLAIN AHVzZXJAZXguY29tAHNlY3JldA=='' @ CRLF) # ls)
     = ([''530 5.7.0 Authentication required'' @ CRLF], Continue session0 w ls)"
  by (simp add: step_def str_defs session0_def)

text \<open>
  Claim C8 says that the walk recurses into nested \<open>multipart/*\<close> parts and extracts
  the attachments nested there. The loop of \<open>parseSubjectBodyAndAttachments\<close> in
  \<open>smtp.go\<close> reads the parts of the top-level reader only: a part of type
  \<open>multipart/mixed\<close> that holds an attachment is taken as a body part, its raw bytes
  become the body, and no attachment is produced.
\<close>

theorem nested_attachment_is_not_extracted:
  "walk_parts e cfg 0
     [\<lparr>PartHeader = [(''Content-Type'', ''multipart/mixed; boundary=in'')],
       PartBody = Inr (''--in'' @ CRLF
                        @ ''Content-Disposition: attachment; filename=a.txt'' @ CRLF @ CRLF
                        @ ''hello'' @ CRLF @ ''--in--'' @ CRLF)\<rparr>]
     '''' False []
   = Inr (''--in'' @ CRLF
            @ ''Content-Disposition: attachment; filename=a.txt'' @ CRLF @ CRLF
            @ ''hello'' @ CRLF @ ''--in--'' @ CRLF,
          False, [])"
  by (simp add: str_defs Get_def decodeMessage_def maxParts_def)

section \<open>Claim about when DATA is accepted\<close>

text \<open>
  A line whose upper-cased text begins with \<open>DATA\<close> reaches the authentication guard
  and then the DATA branch: no earlier branch of the loop matches it.
\<close>

lemma data_dispatch:
  assumes "length l \<le> 512" and "HasPrefix (ToUpper e (TrimRight l [CR, LF])) ''DATA''"
  shows "step e cfg st w (l # ls) =
           (if \<not> authenticated st
            then ([''530 5.7.0 Authentication required'' @ CRLF], Continue st w ls)
            else data_cmd e cfg (TrimRight l [CR, LF]) st w ls)"
proof -
  obtain t where u: "ToUpper e (TrimRight l [CR, LF]) = CHR ''D'' # t"
    using HasPrefix_Cons [OF assms(2)] by blast
  then have ne: "TrimRight l [CR, LF] \<noteq> []"
    by (auto simp: ToUpper_Nil)
  show ?thesis
    using assms(1) assms(2) ne by (simp add: step_def Let_def u HasPrefix_simps)
qed

lemma data_cmd_accepts:
  assumes "rcptTo st \<noteq> []"
  shows "\<exists>out nx. data_cmd e cfg line st w ls
           = ((''354 End data with <CR><LF>.<CR><LF>'' @ CRLF) # out, nx)"
  using assms
  by (auto simp: data_cmd_def Let_def
      split: prod.splits data_result.splits sum.splits send_result.splits)

text \<open>
  Claim C5, as amended: a DATA command is accepted (the 354 prompt is sent and the
  message lines are read) exactly in the session states where \<open>authenticated\<close> is
  true and \<open>rcpt_to\<close> has at least one entry, whatever \<open>mail_from\<close> holds; in every
  other state it is rejected with a single reply (530 without authentication, 503
  without recipients), no line after the command is read and the session is unchanged.
\<close>

theorem data_accepted_iff:
  assumes "length l \<le> 512" and "HasPrefix (ToUpper e (TrimRight l [CR, LF])) ''DATA''"
  shows "((\<exists>out nx. step e cfg st w (l # ls)
              = ((''354 End data with <CR><LF>.<CR><LF>'' @ CRLF) # out, nx))
          = (authenticated st \<and> rcptTo st \<noteq> []))
       \<and> (\<not> authenticated st \<longrightarrow>
            step e cfg st w (l # ls)
              = ([''530 5.7.0 Authentication required'' @ CRLF], Continue st w ls))
       \<and> (authenticated st \<and> rcptTo st = [] \<longrightarrow>
            step e cfg st w (l # ls)
              = ([''503 5.5.1 No recipients specified'' @ CRLF], Continue st w ls))"
proof -
  note d = data_dispatch [OF assms]
  have a: "(\<exists>out nx. step e cfg st w (l # ls)
              = ((''354 End data with <CR><LF>.<CR><LF>'' @ CRLF) # out, nx))
          = (authenticated st \<and> rcptTo st \<noteq> [])"
  proof (cases "authenticated st")
    case False
    then show ?thesis by (simp add: d)
  next
    case True
    show ?thesis
    proof (cases "rcptTo st = []")
      case True
      with \<open>authenticated st\<close> show ?thesis by (simp add: d data_cmd_def)
    next
      case False
      with \<open>authenticated st\<close> data_cmd_accepts [OF False] show ?thesis by (simp add: d)
    qed
  qed
  have b: "\<not> authenticated st \<longrightarrow>
            step e cfg st w (l # ls)
              = ([''530 5.7.0 Authentication required'' @ CRLF], Continue st w ls)"
    by (simp add: d)
  have c: "authenticated st \<and> rcptTo st = [] \<longrightarrow>
            step e cfg st w (l # ls)
              = ([''503 5.5.1 No recipients specified'' @ CRLF], Continue st w ls)"
    by (simp add: d data_cmd_def)
  from a b c show ?thesis by blast
qed

theorem data_accepted_iff_witness:
  "(\<exists>out nx. step scripted_env cfg0 (authed\<lparr>rcptTo := [''r@x.y'']\<rparr>) world0 [''DATA'' @ CRLF]
       = ((''354 End data with <CR><LF>.<CR><LF>'' @ CRLF) # out, nx))
   \<and> mailFrom (authed\<lparr>rcptTo := [''r@x.y'']\<rparr>) = ''''
   \<and> step scripted_env cfg0 session0 world0 [''DATA'' @ CRLF]
       = ([''530 5.7.0 Authentication required'' @ CRLF], Continue session0 world0 [])
   \<and> step scripted_env cfg0 authed world0 [''DATA'' @ CRLF]
       = ([''503 5.5.1 No recipients specified'' @ CRLF], Continue authed world0 [])"
proof -
  have len: "length (''DATA'' @ CRLF) \<le> 512"
    by (simp add: CRLF_def)
  have pre: "HasPrefix (ToUpper e (TrimRight (''DATA'' @ CRLF) [CR, LF])) ''DATA''" for e
    by (simp add: str_defs)
  note t = data_accepted_iff [OF len pre]
  have st1: "authenticated (authed\<lparr>rcptTo := [''r@x.y'']\<rparr>) \<and> rcptTo (authed\<lparr>rcptTo := [''r@x.y'']\<rparr>) \<noteq> []"
    by (simp add: authed_def)
  have st2: "\<not> authenticated session0"
    by (simp add: session0_def)
  have st3: "authenticated authed \<and> rcptTo authed = []"
    by (simp add: authed_def)
  have a: "\<exists>out nx. step scripted_env cfg0 (authed\<lparr>rcptTo := [''r@x.y'']\<rparr>) world0 [''DATA'' @ CRLF]
       = ((''354 End data with <CR><LF>.<CR><LF>'' @ CRLF) # out, nx)"
    using t [of scripted_env cfg0 "authed\<lparr>rcptTo := [''r@x.y'']\<rparr>" world0 "[]"] st1 by blast
  have b: "step scripted_env cfg0 session0 world0 [''DATA'' @ CRLF]
       = ([''530 5.7.0 Authentication required'' @ CRLF], Continue session0 world0 [])"
    using t [of scripted_env cfg0 session0 world0 "[]"] st2 by blast
  have c: "step scripted_env cfg0 authed world0 [''DATA'' @ CRLF]
       = ([''503 5.5.1 No recipients specified'' @ CRLF], Continue authed world0 [])"
    using t [of scripted_env cfg0 authed world0 "[]"] st3 by blast
  have m: "mailFrom (authed\<lparr>rcptTo := [''r@x.y'']\<rparr>) = ''''"
    by (simp add: authed_def)
  from a m b c show ?thesis by blast
qed

text \<open>
  The claim as stated also asks for a non-empty \<open>mail_from\<close>. The code does not: a
  client that authenticates and sends RCPT TO and DATA, and never MAIL FROM, gets the
  354 prompt while \<open>mail_from\<close> is empty.
\<close>

theorem data_without_mail_from:
  "handleSMTPConnection scripted_env cfg0 world0
     [''AUTH LOGIN'' @ CRLF, ''dXNlckBleC5jb20='' @ CRLF, ''c2VjcmV0'' @ CRLF,
      ''RCPT TO:<r@x.y>'' @ CRLF, ''DATA'' @ CRLF]
   = [''220 SMTP Relay Ready'' @ CRLF, ''334 VXNlcm5hbWU6'' @ CRLF, ''334 UGFzc3dvcmQ6'' @ CRLF,
      ''235 2.7.0 Authentication successful'' @ CRLF, ''250 2.1.5 Ok'' @ CRLF,
      ''354 End data with <CR><LF>.<CR><LF>'' @ CRLF]
   \<and> mailFrom (authed\<lparr>rcptTo := [''r@x.y'']\<rparr>) = ''''
   \<and> step scripted_env cfg0 (authed\<lparr>rcptTo := [''r@x.y'']\<rparr>) world0 [''DATA'' @ CRLF]
       = ([''354 End data with <CR><LF>.<CR><LF>'' @ CRLF], Return)"
proof (intro conjI)
  show "handleSMTPConnection scripted_env cfg0 world0
     [''AUTH LOGIN'' @ CRLF, ''dXNlckBleC5jb20='' @ CRLF, ''c2VjcmV0'' @ CRLF,
      ''RCPT TO:<r@x.y>'' @ CRLF, ''DATA'' @ CRLF]
   = [''220 SMTP Relay Ready'' @ CRLF, ''334 VXNlcm5hbWU6'' @ CRLF, ''334 UGFzc3dvcmQ6'' @ CRLF,
      ''235 2.7.0 Authentication successful'' @ CRLF, ''250 2.1.5 Ok'' @ CRLF,
      ''354 End data with <CR><LF>.<CR><LF>'' @ CRLF]"
    by code_simp
  show "mailFrom (authed\<lparr>rcptTo := [''r@x.y'']\<rparr>) = ''''"
    by (simp add: authed_def)
  show "step scripted_env cfg0 (authed\<lparr>rcptTo := [''r@x.y'']\<rparr>) world0 [''DATA'' @ CRLF]
       = ([''354 End data with <CR><LF>.<CR><LF>'' @ CRLF], Return)"
    by (simp add: step_def data_cmd_def authed_def str_defs)
qed

section \<open>Claim about the address check of MAIL FROM and RCPT TO\<close>

text \<open>
  Claim C6, as amended: an address given in RCPT TO is accepted (250 2.1.5, and the
  address joins \<open>rcpt_to\<close>) exactly when it passes the validity check, which is: not
  empty, at most 254 bytes, at least one \<open>@\<close>, and, with the address split at its last
  \<open>@\<close>, a local part of 1 to 64 bytes and a domain of 1 to 253 bytes that holds a dot;
  any other RCPT TO address is answered \<open>553 5.1.3\<close> and changes nothing. A MAIL FROM
  whose address is empty is answered \<open>501 5.1.7\<close>.
\<close>

theorem rcpt_address_check:
  assumes "authenticated st" and "length l \<le> 512"
  shows "(HasPrefix (ToUpper e (TrimRight l [CR, LF])) ''RCPT TO:'' \<longrightarrow>
            step e cfg st w (l # ls) =
              (if address_ok (extractAddress (TrimRight l [CR, LF]))
               then ([''250 2.1.5 Ok'' @ CRLF],
                     Continue (st\<lparr>rcptTo := rcptTo st @ [extractAddress (TrimRight l [CR, LF])]\<rparr>)
                       w ls)
               else ([''553 5.1.3 Invalid recipient address'' @ CRLF], Continue st w ls)))
       \<and> (HasPrefix (ToUpper e (TrimRight l [CR, LF])) ''MAIL FROM:''
            \<and> extractAddress (TrimRight l [CR, LF]) = '''' \<longrightarrow>
            step e cfg st w (l # ls) =
              ([''501 5.1.7 Invalid sender address'' @ CRLF],
               Continue (st\<lparr>mailFrom := ''''\<rparr>) w ls))"
proof (intro conjI impI)
  assume p: "HasPrefix (ToUpper e (TrimRight l [CR, LF])) ''RCPT TO:''"
  obtain t where u: "ToUpper e (TrimRight l [CR, LF]) = CHR ''R'' # t"
    using HasPrefix_Cons [OF p] by blast
  then have ne: "TrimRight l [CR, LF] \<noteq> []"
    by (auto simp: ToUpper_Nil)
  have emp: "\<not> address_ok ''''"
    by (simp add: address_ok_def)
  show "step e cfg st w (l # ls) =
          (if address_ok (extractAddress (TrimRight l [CR, LF]))
           then ([''250 2.1.5 Ok'' @ CRLF],
                 Continue (st\<lparr>rcptTo := rcptTo st @ [extractAddress (TrimRight l [CR, LF])]\<rparr>)
                   w ls)
           else ([''553 5.1.3 Invalid recipient address'' @ CRLF], Continue st w ls))"
    using assms p ne emp
    by (auto simp: step_def Let_def u HasPrefix_simps isValidEmail_address_ok)
next
  assume "HasPrefix (ToUpper e (TrimRight l [CR, LF])) ''MAIL FROM:''
            \<and> extractAddress (TrimRight l [CR, LF]) = ''''"
  then have p: "HasPrefix (ToUpper e (TrimRight l [CR, LF])) ''MAIL FROM:''"
    and x: "extractAddress (TrimRight l [CR, LF]) = ''''"
    by simp_all
  obtain t where u: "ToUpper e (TrimRight l [CR, LF]) = CHR ''M'' # t"
    using HasPrefix_Cons [OF p] by blast
  then have ne: "TrimRight l [CR, LF] \<noteq> []"
    by (auto simp: ToUpper_Nil)
  show "step e cfg st w (l # ls) =
          ([''501 5.1.7 Invalid sender address'' @ CRLF],
           Continue (st\<lparr>mailFrom := ''''\<rparr>) w ls)"
    using assms p ne x
    by (auto simp: step_def Let_def u HasPrefix_simps)
qed

theorem rcpt_address_check_witness:
  "step scripted_env cfg0 authed world0 [''RCPT TO:<r@x.y>'' @ CRLF]
     = ([''250 2.1.5 Ok'' @ CRLF], Continue (authed\<lparr>rcptTo := [''r@x.y'']\<rparr>) world0 [])
   \<and> step scripted_env cfg0 authed world0 [''RCPT TO:<user@domain>'' @ CRLF]
     = ([''553 5.1.3 Invalid recipient address'' @ CRLF], Continue authed world0 [])
   \<and> step scripted_env cfg0 authed world0 [''MAIL FROM:<>'' @ CRLF]
     = ([''501 5.1.7 Invalid sender address'' @ CRLF], Continue authed world0 [])
   \<and> step scripted_env cfg0 authed world0 [''RCPT TO:'' @ [CHR 0xC2, CHR 0xA0] @ ''@b.c'' @ CRLF]
     = ([''553 5.1.3 Invalid recipient address'' @ CRLF], Continue authed world0 [])"
proof -
  have au: "authenticated authed"
    by (simp add: authed_def)
  have l1: "length (''RCPT TO:<r@x.y>'' @ CRLF) \<le> 512"
    and l2: "length (''RCPT TO:<user@domain>'' @ CRLF) \<le> 512"
    and l3: "length (''MAIL FROM:<>'' @ CRLF) \<le> 512"
    and l4: "length (''RCPT TO:'' @ [CHR 0xC2, CHR 0xA0] @ ''@b.c'' @ CRLF) \<le> 512"
    by (simp_all add: CRLF_def)
  have p1: "HasPrefix (ToUpper scripted_env (TrimRight (''RCPT TO:<r@x.y>'' @ CRLF) [CR, LF]))
              ''RCPT TO:''"
    by code_simp
  have x1: "extractAddress (TrimRight (''RCPT TO:<r@x.y>'' @ CRLF) [CR, LF]) = ''r@x.y''"
    by code_simp
  have ok1: "address_ok ''r@x.y''"
    by code_simp
  have p2: "HasPrefix (ToUpper scripted_env (TrimRight (''RCPT TO:<user@domain>'' @ CRLF) [CR, LF]))
              ''RCPT TO:''"
    by code_simp
  have x2: "extractAddress (TrimRight (''RCPT TO:<user@domain>'' @ CRLF) [CR, LF]) = ''user@domain''"
    by code_simp
  have ok2: "\<not> address_ok ''user@domain''"
    by code_simp
  have p3: "HasPrefix (ToUpper scripted_env (TrimRight (''MAIL FROM:<>'' @ CRLF) [CR, LF]))
                ''MAIL FROM:''
              \<and> extractAddress (TrimRight (''MAIL FROM:<>'' @ CRLF) [CR, LF]) = ''''"
    by code_simp
  \<comment> \<open>a no-break space before the address is trimmed, and what is left has no local part\<close>
  have p4: "HasPrefix (ToUpper scripted_env
                (TrimRight (''RCPT TO:'' @ [CHR 0xC2, CHR 0xA0] @ ''@b.c'' @ CRLF) [CR, LF]))
              ''RCPT TO:''"
    by code_simp
  have x4: "extractAddress (TrimRight (''RCPT TO:'' @ [CHR 0xC2, CHR 0xA0] @ ''@b.c'' @ CRLF) [CR, LF])
              = ''@b.c''"
    by code_simp
  have ok4: "\<not> address_ok ''@b.c''"
    by code_simp
  have m: "authed\<lparr>mailFrom := ''''\<rparr> = authed"
    by (simp add: authed_def)
  have r: "rcptTo authed @ [''r@x.y''] = [''r@x.y'']"
    by (simp add: authed_def)
  have a: "step scripted_env cfg0 authed world0 [''RCPT TO:<r@x.y>'' @ CRLF]
     = ([''250 2.1.5 Ok'' @ CRLF], Continue (authed\<lparr>rcptTo := [''r@x.y'']\<rparr>) world0 [])"
    using rcpt_address_check [OF au l1, of scripted_env cfg0 world0 "[]",
        THEN conjunct1, THEN mp, OF p1]
    by (simp only: x1 ok1 r if_True)
  have b: "step scripted_env cfg0 authed world0 [''RCPT TO:<user@domain>'' @ CRLF]
     = ([''553 5.1.3 Invalid recipient address'' @ CRLF], Continue authed world0 [])"
    using rcpt_address_check [OF au l2, of scripted_env cfg0 world0 "[]",
        THEN conjunct1, THEN mp, OF p2]
    by (simp only: x2 ok2 if_False)
  have c: "step scripted_env cfg0 authed world0 [''MAIL FROM:<>'' @ CRLF]
     = ([''501 5.1.7 Invalid sender address'' @ CRLF], Continue authed world0 [])"
    using rcpt_address_check [OF au l3, of scripted_env cfg0 world0 "[]",
        THEN conjunct2, THEN mp, OF p3]
    by (simp only: m)
  have d: "step scripted_env cfg0 authed world0 [''RCPT TO:'' @ [CHR 0xC2, CHR 0xA0] @ ''@b.c'' @ CRLF]
     = ([''553 5.1.3 Invalid recipient address'' @ CRLF], Continue authed world0 [])"
    using rcpt_address_check [OF au l4, of scripted_env cfg0 world0 "[]",
        THEN conjunct1, THEN mp, OF p4]
    by (simp only: x4 ok4 if_False)
  from a b c d show ?thesis by blast
qed

text \<open>
  The claim as stated asks for exactly one \<open>@\<close> and for the same check on MAIL FROM.
  The code splits at the last \<open>@\<close> and accepts \<open>a@b@c.d\<close> as a recipient; and it
  checks a MAIL FROM address only for emptiness, so \<open>MAIL FROM:<nobody>\<close> is answered
  \<open>250 2.1.0\<close> although \<open>nobody\<close> fails the validity check.
\<close>

theorem second_at_and_bad_sender_accepted:
  "isValidEmail ''a@b@c.d''
   \<and> step scripted_env cfg0 authed world0 [''RCPT TO:<a@b@c.d>'' @ CRLF]
       = ([''250 2.1.5 Ok'' @ CRLF], Continue (authed\<lparr>rcptTo := [''a@b@c.d'']\<rparr>) world0 [])
   \<and> \<not> isValidEmail ''nobody''
   \<and> step scripted_env cfg0 authed world0 [''MAIL FROM:<nobody>'' @ CRLF]
       = ([''250 2.1.0 Ok'' @ CRLF], Continue (authed\<lparr>mailFrom := ''nobody''\<rparr>) world0 [])"
proof (intro conjI)
  show "isValidEmail ''a@b@c.d''"
    by code_simp
  show "\<not> isValidEmail ''nobody''"
    by code_simp
  show "step scripted_env cfg0 authed world0 [''RCPT TO:<a@b@c.d>'' @ CRLF]
       = ([''250 2.1.5 Ok'' @ CRLF], Continue (authed\<lparr>rcptTo := [''a@b@c.d'']\<rparr>) world0 [])"
    by (simp add: step_def authed_def extractAddress_def isValidEmail_def str_defs)
  show "step scripted_env cfg0 authed world0 [''MAIL FROM:<nobody>'' @ CRLF]
       = ([''250 2.1.0 Ok'' @ CRLF], Continue (authed\<lparr>mailFrom := ''nobody''\<rparr>) world0 [])"
    by (simp add: step_def authed_def extractAddress_def str_defs)
qed

section \<open>Claim about the failure paths after the DATA terminator\<close>

text \<open>
  Claim C10: once the DATA terminator has been read within the size limit, every failure
  ends the session. If the message does not parse the handler writes \<open>550 5.6.0\<close>, if
  no token can be had it writes \<open>451 4.7.0\<close>, if the Graph submission fails it writes
  \<open>550 5.7.0\<close>; in each case it then returns, so whatever lines the client has sent
  after the terminator get no reply. Only after \<open>250 2.0.0 Ok: queued as graphapi\<close>
  does the loop go on, with the envelope cleared, to the lines after the terminator: the
  one remaining outcome, a panic inside the submission, is recovered by the handler,
  which returns without a reply.
\<close>

theorem data_failure_closes_session:
  assumes "authenticated st" and "rcptTo st \<noteq> []" and "length l \<le> 512"
    and "HasPrefix (ToUpper e (TrimRight l [CR, LF])) ''DATA''"
    and "read_data cfg 0 '''' ls = (DataDone buf, rest)"
  shows "(\<forall>err. parseSubjectBodyAndAttachments e cfg (normalize_line_endings buf) = Inl err \<longrightarrow>
            serve e cfg st w (l # ls)
              = [''354 End data with <CR><LF>.<CR><LF>'' @ CRLF,
                 ''550 5.6.0 Message parsing failed: '' @ err @ CRLF])
       \<and> (\<forall>m err w1.
            parseSubjectBodyAndAttachments e cfg (normalize_line_endings buf) = Inr m
            \<and> getCachedOAuth2Token e cfg w (username st) (password st) = (Inl err, w1) \<longrightarrow>
            serve e cfg st w (l # ls)
              = [''354 End data with <CR><LF>.<CR><LF>'' @ CRLF,
                 ''451 4.7.0 Temporary authentication failure'' @ CRLF])
       \<and> (\<forall>subject body isHTML attachments tok w1 err w2.
            parseSubjectBodyAndAttachments e cfg (normalize_line_endings buf)
              = Inr (subject, body, isHTML, attachments)
            \<and> getCachedOAuth2Token e cfg w (username st) (password st) = (Inr tok, w1)
            \<and> sendMailGraphAPI e cfg w1 tok (username st) (mailFrom st) (rcptTo st)
                  subject body isHTML attachments = (SendError err, w2) \<longrightarrow>
            serve e cfg st w (l # ls)
              = [''354 End data with <CR><LF>.<CR><LF>'' @ CRLF,
                 ''550 5.7.0 Delivery failed: '' @ err @ CRLF])
       \<and> (\<forall>subject body isHTML attachments tok w1 w2.
            parseSubjectBodyAndAttachments e cfg (normalize_line_endings buf)
              = Inr (subject, body, isHTML, attachments)
            \<and> getCachedOAuth2Token e cfg w (username st) (password st) = (Inr tok, w1)
            \<and> sendMailGraphAPI e cfg w1 tok (username st) (mailFrom st) (rcptTo st)
                  subject body isHTML attachments = (SendOk, w2) \<longrightarrow>
            serve e cfg st w (l # ls)
              = [''354 End data with <CR><LF>.<CR><LF>'' @ CRLF,
                 ''250 2.0.0 Ok: queued as graphapi'' @ CRLF]
                @ serve e cfg (st\<lparr>mailFrom := '''', rcptTo := []\<rparr>) w2 rest)
       \<and> (\<forall>subject body isHTML attachments tok w1 w2.
            parseSubjectBodyAndAttachments e cfg (normalize_line_endings buf)
              = Inr (subject, body, isHTML, attachments)
            \<and> getCachedOAuth2Token e cfg w (username st) (password st) = (Inr tok, w1)
            \<and> sendMailGraphAPI e cfg w1 tok (username st) (mailFrom st) (rcptTo st)
                  subject body isHTML attachments = (SendPanic, w2) \<longrightarrow>
            serve e cfg st w (l # ls) = [''354 End data with <CR><LF>.<CR><LF>'' @ CRLF])"
proof -
  have d: "step e cfg st w (l # ls) = data_cmd e cfg (TrimRight l [CR, LF]) st w ls"
    using data_dispatch [OF assms(3) assms(4), of cfg st w ls] assms(1) by simp
  have s: "serve e cfg st w (l # ls) =
             (case data_cmd e cfg (TrimRight l [CR, LF]) st w ls of
                (out, Return) \<Rightarrow> out
              | (out, Continue st' w' rest') \<Rightarrow> out @ serve e cfg st' w' rest')"
    by (subst serve.simps) (simp only: d)
  show ?thesis
    by (intro conjI allI impI; (elim conjE)?)
       (simp_all add: s data_cmd_def assms(2) assms(5))
qed

theorem data_failure_closes_session_witness:
  "serve scripted_env cfg0 (authed\<lparr>mailFrom := ''a@b.c'', rcptTo := [''r@x.y'']\<rparr>) world0
     [''DATA'' @ CRLF, ''garbage'' @ CRLF, ''.'' @ CRLF, ''NOOP'' @ CRLF]
     = [''354 End data with <CR><LF>.<CR><LF>'' @ CRLF,
        ''550 5.6.0 Message parsing failed: ''
          @ ''mail.ReadMessage failed: malformed MIME header line: garbage'' @ CRLF]
   \<and> serve (scripted_env\<lparr>AuthDo := \<lambda>n. DoError ''dial tcp: i/o timeout''\<rparr>) cfg0
       (authed\<lparr>mailFrom := ''a@b.c'', rcptTo := [''r@x.y'']\<rparr>) world0
       [''DATA'' @ CRLF, ''Subject: Hi'' @ CRLF, CRLF, ''Hello.'' @ CRLF, ''.'' @ CRLF,
        ''NOOP'' @ CRLF]
     = [''354 End data with <CR><LF>.<CR><LF>'' @ CRLF,
        ''451 4.7.0 Temporary authentication failure'' @ CRLF]
   \<and> serve (scripted_env\<lparr>GraphDo := \<lambda>n. Response 400 (Inr ''denied'')\<rparr>) cfg0
       (authed\<lparr>mailFrom := ''a@b.c'', rcptTo := [''r@x.y'']\<rparr>) world0
       [''DATA'' @ CRLF, ''Subject: Hi'' @ CRLF, CRLF, ''Hello.'' @ CRLF, ''.'' @ CRLF,
        ''NOOP'' @ CRLF]
     = [''354 End data with <CR><LF>.<CR><LF>'' @ CRLF,
        ''550 5.7.0 Delivery failed: '' @ ''Graph API error (status 400): denied'' @ CRLF]
   \<and> serve scripted_env cfg0 (authed\<lparr>mailFrom := ''a@b.c'', rcptTo := [''r@x.y'']\<rparr>) world0
       [''DATA'' @ CRLF, ''Subject: Hi'' @ CRLF, CRLF, ''Hello.'' @ CRLF, ''.'' @ CRLF,
        ''NOOP'' @ CRLF]
     = [''354 End data with <CR><LF>.<CR><LF>'' @ CRLF,
        ''250 2.0.0 Ok: queued as graphapi'' @ CRLF]
       @ [''250 2.0.0 Ok'' @ CRLF, ''421 4.7.0 Service not available'' @ CRLF]
   \<and> serve (scripted_env\<lparr>GraphDo := \<lambda>n. Response 503 (Inr '''')\<rparr>)
       (cfg0\<lparr>RetryInitialDelay := - 1\<rparr>)
       (authed\<lparr>mailFrom := ''a@b.c'', rcptTo := [''r@x.y'']\<rparr>) world0
       [''DATA'' @ CRLF, ''Subject: Hi'' @ CRLF, CRLF, ''Hello.'' @ CRLF, ''.'' @ CRLF,
        ''NOOP'' @ CRLF]
     = [''354 End data with <CR><LF>.<CR><LF>'' @ CRLF]
   \<and> serve scripted_env cfg0 (authed\<lparr>mailFrom := ''a@b.c'', rcptTo := [''r@x.y'']\<rparr>) world0
       [''DATA'' @ CRLF, ''garbage'' @ CRLF, ''.'' @ [CHR 0xC2, CHR 0xA0] @ CRLF,
        ''Subject: Hi'' @ CRLF, ''.'' @ CRLF]
     = [''354 End data with <CR><LF>.<CR><LF>'' @ CRLF,
        ''550 5.6.0 Message parsing failed: ''
          @ ''mail.ReadMessage failed: malformed MIME header line: garbage'' @ CRLF]"
proof -
  let ?S = "authed\<lparr>mailFrom := ''a@b.c'', rcptTo := [''r@x.y'']\<rparr>"
  let ?E2 = "scripted_env\<lparr>AuthDo := \<lambda>n. DoError ''dial tcp: i/o timeout''\<rparr>"
  let ?E3 = "scripted_env\<lparr>GraphDo := \<lambda>n. Response 400 (Inr ''denied'')\<rparr>"
  let ?bad = "[''garbage'' @ CRLF, ''.'' @ CRLF, ''NOOP'' @ CRLF]"
  let ?good = "[''Subject: Hi'' @ CRLF, CRLF, ''Hello.'' @ CRLF, ''.'' @ CRLF, ''NOOP'' @ CRLF]"
  let ?msg = "''Subject: Hi'' @ CRLF @ CRLF @ ''Hello.'' @ CRLF"
  have au: "authenticated ?S" and rc: "rcptTo ?S \<noteq> []"
    by (simp_all add: authed_def)
  have len: "length (''DATA'' @ CRLF) \<le> 512"
    by (simp add: CRLF_def)
  have pre: "HasPrefix (ToUpper e (TrimRight (''DATA'' @ CRLF) [CR, LF])) ''DATA''" for e
    by (simp add: str_defs)
  have rd1: "read_data cfg0 0 '''' ?bad = (DataDone (''garbage'' @ CRLF), [''NOOP'' @ CRLF])"
    by code_simp
  have rd2: "read_data cfg0 0 '''' ?good = (DataDone ?msg, [''NOOP'' @ CRLF])"
    by code_simp
  note t1 = data_failure_closes_session [OF au rc len pre rd1, of scripted_env world0]
  note t2 = data_failure_closes_session [OF au rc len pre rd2, of ?E2 world0]
  note t3 = data_failure_closes_session [OF au rc len pre rd2, of ?E3 world0]
  note t4 = data_failure_closes_session [OF au rc len pre rd2, of scripted_env world0]
  \<comment> \<open>the message does not parse\<close>
  have p1: "parseSubjectBodyAndAttachments scripted_env cfg0
              (normalize_line_endings (''garbage'' @ CRLF))
            = Inl ''mail.ReadMessage failed: malformed MIME header line: garbage''"
    by code_simp
  have a: "serve scripted_env cfg0 ?S world0 ((''DATA'' @ CRLF) # ?bad)
     = [''354 End data with <CR><LF>.<CR><LF>'' @ CRLF,
        ''550 5.6.0 Message parsing failed: ''
          @ ''mail.ReadMessage failed: malformed MIME header line: garbage'' @ CRLF]"
    by (rule t1 [THEN conjunct1, rule_format, OF p1])
  \<comment> \<open>the token endpoint cannot be reached\<close>
  have p2: "parseSubjectBodyAndAttachments ?E2 cfg0 (normalize_line_endings ?msg)
            = Inr (''Hi'', ''Hello.'' @ CRLF, False, [])"
    by code_simp
  have k2: "fst (getCachedOAuth2Token ?E2 cfg0 world0 (username ?S) (password ?S))
            = Inl ''token request failed: dial tcp: i/o timeout''"
    by code_simp
  have k2': "getCachedOAuth2Token ?E2 cfg0 world0 (username ?S) (password ?S)
            = (Inl ''token request failed: dial tcp: i/o timeout'',
               snd (getCachedOAuth2Token ?E2 cfg0 world0 (username ?S) (password ?S)))"
    by (rule prod_eqI) (simp_all only: k2 fst_conv snd_conv)
  have b: "serve ?E2 cfg0 ?S world0 ((''DATA'' @ CRLF) # ?good)
     = [''354 End data with <CR><LF>.<CR><LF>'' @ CRLF,
        ''451 4.7.0 Temporary authentication failure'' @ CRLF]"
    by (rule t2 [THEN conjunct2, THEN conjunct1, rule_format, OF conjI [OF p2 k2']])
  \<comment> \<open>Graph refuses the message\<close>
  have p3: "parseSubjectBodyAndAttachments ?E3 cfg0 (normalize_line_endings ?msg)
            = Inr (''Hi'', ''Hello.'' @ CRLF, False, [])"
    by code_simp
  let ?w3 = "snd (getCachedOAuth2Token ?E3 cfg0 world0 (username ?S) (password ?S))"
  have k3: "fst (getCachedOAuth2Token ?E3 cfg0 world0 (username ?S) (password ?S)) = Inr ''tok''"
    by code_simp
  have k3': "getCachedOAuth2Token ?E3 cfg0 world0 (username ?S) (password ?S) = (Inr ''tok'', ?w3)"
    by (rule prod_eqI) (simp_all only: k3 fst_conv snd_conv)
  have s3: "fst (sendMailGraphAPI ?E3 cfg0 ?w3 ''tok'' (username ?S) (mailFrom ?S) (rcptTo ?S)
                   ''Hi'' (''Hello.'' @ CRLF) False [])
            = SendError ''Graph API error (status 400): denied''"
    by code_simp
  have s3': "sendMailGraphAPI ?E3 cfg0 ?w3 ''tok'' (username ?S) (mailFrom ?S) (rcptTo ?S)
                   ''Hi'' (''Hello.'' @ CRLF) False []
            = (SendError ''Graph API error (status 400): denied'',
               snd (sendMailGraphAPI ?E3 cfg0 ?w3 ''tok'' (username ?S) (mailFrom ?S) (rcptTo ?S)
                   ''Hi'' (''Hello.'' @ CRLF) False []))"
    by (rule prod_eqI) (simp_all only: s3 fst_conv snd_conv)
  have c: "serve ?E3 cfg0 ?S world0 ((''DATA'' @ CRLF) # ?good)
     = [''354 End data with <CR><LF>.<CR><LF>'' @ CRLF,
        ''550 5.7.0 Delivery failed: '' @ ''Graph API error (status 400): denied'' @ CRLF]"
    by (rule t3 [THEN conjunct2, THEN conjunct2, THEN conjunct1, rule_format,
                 OF conjI [OF p3 conjI [OF k3' s3']]])
  \<comment> \<open>the message is delivered\<close>
  have p4: "parseSubjectBodyAndAttachments scripted_env cfg0 (normalize_line_endings ?msg)
            = Inr (''Hi'', ''Hello.'' @ CRLF, False, [])"
    by code_simp
  let ?w4 = "snd (getCachedOAuth2Token scripted_env cfg0 world0 (username ?S) (password ?S))"
  have k4: "fst (getCachedOAuth2Token scripted_env cfg0 world0 (username ?S) (password ?S))
            = Inr ''tok''"
    by code_simp
  have k4': "getCachedOAuth2Token scripted_env cfg0 world0 (username ?S) (password ?S)
            = (Inr ''tok'', ?w4)"
    by (rule prod_eqI) (simp_all only: k4 fst_conv snd_conv)
  let ?w5 = "snd (sendMailGraphAPI scripted_env cfg0 ?w4 ''tok'' (username ?S) (mailFrom ?S)
                    (rcptTo ?S) ''Hi'' (''Hello.'' @ CRLF) False [])"
  have s4: "fst (sendMailGraphAPI scripted_env cfg0 ?w4 ''tok'' (username ?S) (mailFrom ?S)
                   (rcptTo ?S) ''Hi'' (''Hello.'' @ CRLF) False [])
            = SendOk"
    by code_simp
  have s4': "sendMailGraphAPI scripted_env cfg0 ?w4 ''tok'' (username ?S) (mailFrom ?S)
                   (rcptTo ?S) ''Hi'' (''Hello.'' @ CRLF) False []
            = (SendOk, ?w5)"
    by (rule prod_eqI) (simp_all only: s4 fst_conv snd_conv)
  have after: "serve scripted_env cfg0 (?S\<lparr>mailFrom := '''', rcptTo := []\<rparr>) ?w5 [''NOOP'' @ CRLF]
            = [''250 2.0.0 Ok'' @ CRLF, ''421 4.7.0 Service not available'' @ CRLF]"
    by code_simp
  have d: "serve scripted_env cfg0 ?S world0 ((''DATA'' @ CRLF) # ?good)
     = [''354 End data with <CR><LF>.<CR><LF>'' @ CRLF,
        ''250 2.0.0 Ok: queued as graphapi'' @ CRLF]
       @ [''250 2.0.0 Ok'' @ CRLF, ''421 4.7.0 Service not available'' @ CRLF]"
    using t4 [THEN conjunct2, THEN conjunct2, THEN conjunct2, THEN conjunct1, rule_format,
              OF conjI [OF p4 conjI [OF k4' s4']]]
    by (simp only: after)
  \<comment> \<open>a negative retry delay makes the jitter computation panic before the first retry\<close>
  let ?E5 = "scripted_env\<lparr>GraphDo := \<lambda>n. Response 503 (Inr '''')\<rparr>"
  let ?C5 = "cfg0\<lparr>RetryInitialDelay := - 1\<rparr>"
  have rd5: "read_data ?C5 0 '''' ?good = (DataDone ?msg, [''NOOP'' @ CRLF])"
    by code_simp
  note t5 = data_failure_closes_session [OF au rc len pre rd5, of ?E5 world0]
  have p5: "parseSubjectBodyAndAttachments ?E5 ?C5 (normalize_line_endings ?msg)
            = Inr (''Hi'', ''Hello.'' @ CRLF, False, [])"
    by code_simp
  let ?w6 = "snd (getCachedOAuth2Token ?E5 ?C5 world0 (username ?S) (password ?S))"
  have k5: "fst (getCachedOAuth2Token ?E5 ?C5 world0 (username ?S) (password ?S)) = Inr ''tok''"
    by code_simp
  have k5': "getCachedOAuth2Token ?E5 ?C5 world0 (username ?S) (password ?S) = (Inr ''tok'', ?w6)"
    by (rule prod_eqI) (simp_all only: k5 fst_conv snd_conv)
  have s5: "fst (sendMailGraphAPI ?E5 ?C5 ?w6 ''tok'' (username ?S) (mailFrom ?S) (rcptTo ?S)
                   ''Hi'' (''Hello.'' @ CRLF) False [])
            = SendPanic"
    by code_simp
  have s5': "sendMailGraphAPI ?E5 ?C5 ?w6 ''tok'' (username ?S) (mailFrom ?S) (rcptTo ?S)
                   ''Hi'' (''Hello.'' @ CRLF) False []
            = (SendPanic,
               snd (sendMailGraphAPI ?E5 ?C5 ?w6 ''tok'' (username ?S) (mailFrom ?S) (rcptTo ?S)
                   ''Hi'' (''Hello.'' @ CRLF) False []))"
    by (rule prod_eqI) (simp_all only: s5 fst_conv snd_conv)
  have e: "serve ?E5 ?C5 ?S world0 ((''DATA'' @ CRLF) # ?good)
     = [''354 End data with <CR><LF>.<CR><LF>'' @ CRLF]"
    by (rule t5 [THEN conjunct2, THEN conjunct2, THEN conjunct2, THEN conjunct2, rule_format,
                 OF conjI [OF p5 conjI [OF k5' s5']]])
  \<comment> \<open>a dot followed by a no-break space ends the message too\<close>
  let ?nbsp = "[''garbage'' @ CRLF, ''.'' @ [CHR 0xC2, CHR 0xA0] @ CRLF,
                ''Subject: Hi'' @ CRLF, ''.'' @ CRLF]"
  have rd6: "read_data cfg0 0 '''' ?nbsp
               = (DataDone (''garbage'' @ CRLF), [''Subject: Hi'' @ CRLF, ''.'' @ CRLF])"
    by code_simp
  note t6 = data_failure_closes_session [OF au rc len pre rd6, of scripted_env world0]
  have f: "serve scripted_env cfg0 ?S world0 ((''DATA'' @ CRLF) # ?nbsp)
     = [''354 End data with <CR><LF>.<CR><LF>'' @ CRLF,
        ''550 5.6.0 Message parsing failed: ''
          @ ''mail.ReadMessage failed: malformed MIME header line: garbage'' @ CRLF]"
    by (rule t6 [THEN conjunct1, rule_format, OF p1])
  from a b c d e f show ?thesis
    by (intro conjI)
qed

section \<open>Further properties of the code\<close>

text \<open>
  The address check of \<open>isValidEmail\<close> is the check in the words of the
  specification, with the address split at its last \<open>@\<close>.
\<close>

theorem isValidEmail_is_spec_check: "isValidEmail a = address_ok a"
  by (rule isValidEmail_address_ok)

text \<open>
  The status codes that \<open>doWithRetry\<close> retries under the configuration that
  \<open>getRetryConfig\<close> builds are 429, 500, 502, 503 and 504, and no others.
\<close>

theorem retryable_status_codes:
  "isRetryableStatus s (RetryableStatus (getRetryConfig cfg)) = (s \<in> {429, 500, 502, 503, 504})"
  by (auto simp: getRetryConfig_def)

end
